theory Spec2Isabelle
  imports Main "HOL-Library.List_Lexorder" "HOL-Library.Char_ord"
begin

section \<open>Python values\<close>

text \<open>
  Both modules work on dynamically typed dictionaries obtained from JSON text or handed in
  by the agent loop. A value is \<open>None\<close>, a boolean, an integer, a string, a list or a
  dictionary; \<open>JNull\<close> stands for Python's \<open>None\<close> as well as for JSON's \<open>null\<close>
  (the JSON library maps one to the other). A dictionary keeps its insertion order and is
  an association list whose first binding of a key counts. Floating-point numbers are not
  represented. A \<open>char\<close> stands for one character of a Python string. Integers are
  unbounded, and turning a document into JSON text is taken to succeed (Python refuses to
  print an integer of more than 4300 digits).
\<close>

datatype json =
    JNull
  | JBool bool
  | JInt int
  | JStr string
  | JArr "json list"
  | JObj "(string \<times> json) list"

type_synonym dict = "(string \<times> json) list"

datatype exn =
    KeyError string
  | TypeError
  | AttributeError
  | ValueError
  | OSError
  | TransportError
  | RecursionError

text \<open>Truth value testing: \<open>None\<close>, \<open>False\<close>, zero and empty containers are false.\<close>

fun truthy :: "json \<Rightarrow> bool" where
  "truthy JNull = False"
| "truthy (JBool b) = b"
| "truthy (JInt i) = (i \<noteq> 0)"
| "truthy (JStr s) = (s \<noteq> [])"
| "truthy (JArr xs) = (xs \<noteq> [])"
| "truthy (JObj kvs) = (kvs \<noteq> [])"

text \<open>\<open>d[k] = v\<close>: an existing key keeps its position, a new key goes to the end.\<close>

fun dict_set :: "dict \<Rightarrow> string \<Rightarrow> json \<Rightarrow> dict" where
  "dict_set [] k v = [(k, v)]"
| "dict_set ((k', v') # kvs) k v =
     (if k' = k then (k, v) # kvs else (k', v') # dict_set kvs k v)"

text \<open>\<open>x.get(k, d)\<close>: only a dictionary has the method.\<close>

fun py_get :: "json \<Rightarrow> string \<Rightarrow> json \<Rightarrow> exn + json" where
  "py_get (JObj kvs) k d = Inr (case map_of kvs k of None \<Rightarrow> d | Some v \<Rightarrow> v)"
| "py_get _ k d = Inl AttributeError"

text \<open>\<open>x[k]\<close> with a string key: a missing key raises, and so does any other receiver.\<close>

fun py_item :: "json \<Rightarrow> string \<Rightarrow> exn + json" where
  "py_item (JObj kvs) k = (case map_of kvs k of None \<Rightarrow> Inl (KeyError k) | Some v \<Rightarrow> Inr v)"
| "py_item _ k = Inl TypeError"

text \<open>\<open>x[k] = v\<close> with a string key: only a dictionary takes it.\<close>

fun py_setitem :: "json \<Rightarrow> string \<Rightarrow> json \<Rightarrow> exn + json" where
  "py_setitem (JObj kvs) k v = Inr (JObj (dict_set kvs k v))"
| "py_setitem _ k v = Inl TypeError"

text \<open>
  \<open>k in x\<close> for a string \<open>k\<close>: a key of a dictionary, an element of a list, a substring
  of a string.
\<close>

fun py_contains :: "json \<Rightarrow> string \<Rightarrow> exn + bool" where
  "py_contains (JObj kvs) k = Inr (map_of kvs k \<noteq> None)"
| "py_contains (JArr xs) k = Inr (JStr k \<in> set xs)"
| "py_contains (JStr s) k = Inr (list_ex (\<lambda>i. take (length k) (drop i s) = k) [0..<Suc (length s)])"
| "py_contains _ k = Inl TypeError"

text \<open>\<open>for x in v\<close>: a dictionary yields its keys, a string its characters.\<close>

fun py_iter :: "json \<Rightarrow> exn + json list" where
  "py_iter (JArr xs) = Inr xs"
| "py_iter (JObj kvs) = Inr (map (\<lambda>kv. JStr (fst kv)) kvs)"
| "py_iter (JStr s) = Inr (map (\<lambda>c. JStr [c]) s)"
| "py_iter _ = Inl TypeError"

text \<open>An integer operand of \<open>+\<close>, \<open>*\<close> or \<open>>=\<close>; \<open>bool\<close> is a subclass of \<open>int\<close>.\<close>

fun py_int :: "json \<Rightarrow> exn + int" where
  "py_int (JInt i) = Inr i"
| "py_int (JBool b) = Inr (if b then 1 else 0)"
| "py_int _ = Inl TypeError"

text \<open>
  \<open>s.split()\<close>: split at runs of whitespace, no empty words. The whitespace characters of a
  Python string below code point 256.
\<close>

definition is_space :: "char \<Rightarrow> bool" where
  "is_space c \<longleftrightarrow> (of_char c :: nat) \<in> {9, 10, 11, 12, 13, 28, 29, 30, 31, 32, 133, 160}"

fun split_from :: "string \<Rightarrow> string \<Rightarrow> string list" where
  "split_from cur [] = (if cur = [] then [] else [cur])"
| "split_from cur (c # cs) =
     (if is_space c then (if cur = [] then split_from [] cs else cur # split_from [] cs)
      else split_from (cur @ [c]) cs)"

definition py_split :: "string \<Rightarrow> string list" where
  "py_split s = split_from [] s"

text \<open>\<open>v.split()\<close> on a value: only a string has the method.\<close>

fun py_split_value :: "json \<Rightarrow> exn + json" where
  "py_split_value (JStr s) = Inr (JArr (map JStr (py_split s)))"
| "py_split_value _ = Inl AttributeError"


section \<open>The world outside the program\<close>

text \<open>
  What the program reads from and writes to: the host platform, the credential file and the
  keychain entry, the clock, and the two HTTP endpoints. An endpoint answers as a function of
  everything that happened before and of the request. Every request and every write is
  recorded in \<open>w_log\<close>, in order; \<open>Resolve\<close> marks a call of \<open>get_claude_code_token\<close>.
  A write of the credential file succeeds or fails as the world decides
  (\<open>w_file_write_ok\<close>); a write that fails has either left the file alone or has emptied it
  on opening (\<open>w_file_write_truncates\<close>).
\<close>

datatype platform = Darwin | Linux | Windows | OtherSystem

text \<open>
  A store holds the text of a JSON document (\<open>Doc\<close>, given by its parse), text that is not JSON
  (\<open>Garbled\<close>), nothing (\<open>Missing\<close>), or cannot be read (\<open>Unreadable\<close>).
\<close>

datatype store = Missing | Unreadable | Garbled | Doc json

text \<open>
  An HTTP exchange fails in transport or gives a status, a body text and the parse of the
  text as JSON (\<open>None\<close> when the text is not JSON).
\<close>

datatype http_outcome = Failed | Resp int string "json option"

datatype proc_outcome = ProcOk | ProcNonzero | ProcRaises

datatype event =
    Resolve
  | TokenPost json
  | FileWrite json
  | KeychainDelete
  | KeychainAdd json
  | MessagesPost json json

record world =
  w_system :: platform
  w_user :: "string option"
  w_home :: bool
  w_file :: store
  w_file_write_ok :: bool
  w_file_write_truncates :: bool
  w_keychain :: store
  w_kc_delete :: proc_outcome
  w_kc_add :: proc_outcome
  w_httpx :: bool
  w_requests :: bool
  w_token_endpoint :: "event list \<Rightarrow> json \<Rightarrow> http_outcome"
  w_messages_endpoint :: "event list \<Rightarrow> json \<Rightarrow> json \<Rightarrow> http_outcome"
  w_time_ms :: "nat \<Rightarrow> int"
  w_ticks :: nat
  w_log :: "event list"

text \<open>A computation that may raise and that changes the world.\<close>

type_synonym 'a io = "world \<Rightarrow> (exn + 'a) \<times> world"

definition ret :: "'a \<Rightarrow> 'a io" where
  "ret x = (\<lambda>w. (Inr x, w))"

definition raise :: "exn \<Rightarrow> 'a io" where
  "raise e = (\<lambda>w. (Inl e, w))"

definition lift :: "exn + 'a \<Rightarrow> 'a io" where
  "lift r = (\<lambda>w. (r, w))"

definition bind :: "'a io \<Rightarrow> ('a \<Rightarrow> 'b io) \<Rightarrow> 'b io" where
  "bind m f = (\<lambda>w. case m w of (Inl e, w') \<Rightarrow> (Inl e, w') | (Inr x, w') \<Rightarrow> f x w')"

text \<open>\<open>try: m except Exception: return v\<close>.\<close>

definition catch :: "'a io \<Rightarrow> 'a \<Rightarrow> 'a io" where
  "catch m v = (\<lambda>w. case m w of (Inl e, w') \<Rightarrow> (Inr v, w') | (Inr x, w') \<Rightarrow> (Inr x, w'))"

definition record_event :: "event \<Rightarrow> world \<Rightarrow> world" where
  "record_event ev w = w\<lparr>w_log := w_log w @ [ev]\<rparr>"

text \<open>\<open>int(time.time() * 1000)\<close>: one reading of the clock, in milliseconds.\<close>

definition current_time_ms :: "int io" where
  "current_time_ms = (\<lambda>w. (Inr (w_time_ms w (w_ticks w)), w\<lparr>w_ticks := Suc (w_ticks w)\<rparr>))"


section \<open>claude_code_auth: reading and refreshing the credential\<close>

definition TOKEN_URL :: string where
  "TOKEN_URL = ''https://platform.claude.com/v1/oauth/token''"

definition CLIENT_ID :: string where
  "CLIENT_ID = ''9d1c250a-e61b-44d9-88ed-5944d1962f5e''"

definition EXPIRY_BUFFER_MS :: int where
  "EXPIRY_BUFFER_MS = 300000"

definition is_token_expired :: "json \<Rightarrow> bool io" where
  "is_token_expired expires_at =
     (if expires_at = JNull then ret True
      else bind current_time_ms (\<lambda>now.
           bind (lift (py_int expires_at)) (\<lambda>e.
           ret (now + EXPIRY_BUFFER_MS \<ge> e))))"

definition refresh_payload :: "json \<Rightarrow> json" where
  "refresh_payload refresh_token = JObj
     [(''grant_type'', JStr ''refresh_token''),
      (''refresh_token'', refresh_token),
      (''client_id'', JStr CLIENT_ID),
      (''scope'', JStr ''user:inference user:mcp_servers user:profile user:sessions:claude_code'')]"

text \<open>
  The POST to the token endpoint. Any failure is caught inside: the result is the parsed
  body of a 200 answer, or \<open>None\<close>.
\<close>

definition refresh_token_with_httpx :: "json \<Rightarrow> json io" where
  "refresh_token_with_httpx refresh_token w =
     (let payload = refresh_payload refresh_token;
          w' = record_event (TokenPost payload) w
      in case w_token_endpoint w (w_log w) payload of
           Failed \<Rightarrow> (Inr JNull, w')
         | Resp status txt body \<Rightarrow>
             if status \<noteq> 200 then (Inr JNull, w')
             else (case body of None \<Rightarrow> (Inr JNull, w') | Some d \<Rightarrow> (Inr d, w')))"

definition refresh_token_with_requests :: "json \<Rightarrow> json io" where
  "refresh_token_with_requests refresh_token w =
     (let payload = refresh_payload refresh_token;
          w' = record_event (TokenPost payload) w
      in case w_token_endpoint w (w_log w) payload of
           Failed \<Rightarrow> (Inr JNull, w')
         | Resp status txt body \<Rightarrow>
             if status \<noteq> 200 then (Inr JNull, w')
             else (case body of None \<Rightarrow> (Inr JNull, w') | Some d \<Rightarrow> (Inr d, w')))"

definition auth_refresh_token :: "json \<Rightarrow> json io" where
  "auth_refresh_token refresh_token w =
     (if w_httpx w then refresh_token_with_httpx refresh_token w
      else if w_requests w then refresh_token_with_requests refresh_token w
      else (Inr JNull, w))"

definition save_credentials_to_file :: "json \<Rightarrow> bool io" where
  "save_credentials_to_file data w =
     (if \<not> w_home w then (Inl OSError, w)
      else let w' = record_event (FileWrite data) w
           in if w_file_write_ok w then (Inr True, w'\<lparr>w_file := Doc data\<rparr>)
              else if w_file_write_truncates w then (Inr False, w'\<lparr>w_file := Garbled\<rparr>)
              else (Inr False, w'))"

text \<open>
  The keychain entry is deleted, then added again. The result of the deletion is not looked
  at; a deletion that succeeds followed by an addition that fails leaves no entry.
\<close>

definition save_credentials_to_keychain :: "json \<Rightarrow> bool io" where
  "save_credentials_to_keychain data w =
     (case w_user w of
        None \<Rightarrow> (Inl OSError, w)
      | Some username \<Rightarrow>
          (let w1 = record_event KeychainDelete w
           in if w_kc_delete w = ProcRaises then (Inr False, w1)
              else (let w2 = (if w_kc_delete w = ProcOk then w1\<lparr>w_keychain := Missing\<rparr> else w1);
                        w3 = record_event (KeychainAdd data) w2
                    in if w_kc_add w = ProcOk then (Inr True, w3\<lparr>w_keychain := Doc data\<rparr>)
                       else (Inr False, w3))))"

text \<open>Lines 291 to 296 of \<open>_extract_token\<close>: an access token that is false gives \<open>None\<close>.\<close>

definition use_token :: "json \<Rightarrow> json io" where
  "use_token access_token = (if truthy access_token then ret access_token else ret JNull)"

text \<open>
  Lines 262 to 286 of \<open>_extract_token\<close>, the branch taken when the refresh gave a true
  value: the document is updated and saved, and the new access token is the result.
\<close>

definition apply_refresh :: "json \<Rightarrow> json \<Rightarrow> json \<Rightarrow> json \<Rightarrow> string \<Rightarrow> json io" where
  "apply_refresh data oauth refresh_token new_token_data storage_type =
     bind (lift (py_get new_token_data ''access_token'' JNull)) (\<lambda>new_access_token.
     bind (lift (py_get new_token_data ''refresh_token'' refresh_token)) (\<lambda>new_refresh_token.
     bind (lift (py_get new_token_data ''expires_in'' (JInt 3600))) (\<lambda>expires_in.
     bind current_time_ms (\<lambda>now.
     bind (lift (py_int expires_in)) (\<lambda>secs.
     bind (lift (py_setitem oauth ''accessToken'' new_access_token)) (\<lambda>oauth1.
     bind (lift (py_setitem oauth1 ''refreshToken'' new_refresh_token)) (\<lambda>oauth2.
     bind (lift (py_setitem oauth2 ''expiresAt'' (JInt (now + secs * 1000)))) (\<lambda>oauth3.
     bind (lift (py_contains new_token_data ''scope'')) (\<lambda>has_scope.
     bind (if has_scope
           then bind (lift (py_item new_token_data ''scope'')) (\<lambda>scope.
                bind (lift (py_split_value scope)) (\<lambda>scopes.
                lift (py_setitem oauth3 ''scopes'' scopes)))
           else ret oauth3) (\<lambda>oauth4.
     bind (lift (py_setitem data ''claudeAiOauth'' oauth4)) (\<lambda>data'.
     bind (if storage_type = ''keychain'' then save_credentials_to_keychain data'
           else save_credentials_to_file data') (\<lambda>saved.
     use_token new_access_token))))))))))))"

definition extract_token :: "json \<Rightarrow> string \<Rightarrow> json io" where
  "extract_token data storage_type =
     bind (lift (py_get data ''claudeAiOauth'' (JObj []))) (\<lambda>oauth.
     bind (lift (py_get oauth ''accessToken'' JNull)) (\<lambda>access_token.
     bind (lift (py_get oauth ''refreshToken'' JNull)) (\<lambda>refresh_token.
     bind (lift (py_get oauth ''expiresAt'' JNull)) (\<lambda>expires_at.
     bind (is_token_expired expires_at) (\<lambda>expired.
     if expired then
       (if \<not> truthy refresh_token then ret JNull
        else bind (auth_refresh_token refresh_token) (\<lambda>new_token_data.
             if truthy new_token_data
             then apply_refresh data oauth refresh_token new_token_data storage_type
             else ret JNull))
     else use_token access_token)))))"

definition get_token_from_keychain :: "json io" where
  "get_token_from_keychain w =
     (case w_user w of
        None \<Rightarrow> (Inl OSError, w)
      | Some username \<Rightarrow>
          (case w_keychain w of
             Doc data \<Rightarrow> catch (extract_token data ''keychain'') JNull w
           | _ \<Rightarrow> (Inr JNull, w)))"

definition get_token_from_credentials_file :: "json io" where
  "get_token_from_credentials_file w =
     (if \<not> w_home w then (Inl OSError, w)
      else case w_file w of
             Doc data \<Rightarrow> catch (extract_token data ''file'') JNull w
           | _ \<Rightarrow> (Inr JNull, w))"

definition get_claude_code_token :: "json io" where
  "get_claude_code_token w =
     (let w' = record_event Resolve w
      in case w_system w of
           Darwin \<Rightarrow> get_token_from_keychain w'
         | Linux \<Rightarrow> get_token_from_credentials_file w'
         | Windows \<Rightarrow> get_token_from_credentials_file w'
         | OtherSystem \<Rightarrow> (Inr JNull, w'))"


section \<open>claude_code_provider: translation to and from the wire format\<close>

text \<open>
  Two functions of the Python runtime are parameters of the model: the JSON parser and the
  text that formatting an exception gives. \<open>json.loads\<close> gives a value, rejects the text
  with \<open>JSONDecodeError\<close>, or raises another exception: \<open>ValueError\<close> for an integer literal
  of more than 4300 digits, \<open>RecursionError\<close> for brackets nested too deeply.
\<close>

datatype loads_result = Loaded json | DecodeError | LoadRaises exn

record runtime =
  json_loads :: "string \<Rightarrow> loads_result"
  exn_str :: "exn \<Rightarrow> string"

definition CLAUDE_CODE_SYSTEM_PREFIX :: string where
  "CLAUDE_CODE_SYSTEM_PREFIX = ''You are Claude Code, Anthropic's official CLI for Claude.''"

definition TOOL_NAME_TO_API :: "(string \<times> string) list" where
  "TOOL_NAME_TO_API = [(''read_file'', ''ReadFile'')]"

definition TOOL_NAME_FROM_API :: "(string \<times> string) list" where
  "TOOL_NAME_FROM_API = map (\<lambda>kv. (snd kv, fst kv)) TOOL_NAME_TO_API"

text \<open>
  \<open>table.get(key, default)\<close> and \<open>table.get(name, name)\<close> on a dictionary with string keys
  and string values: a list or a dictionary cannot be hashed, any other value that is not a
  key gives the default.
\<close>

fun table_get :: "(string \<times> string) list \<Rightarrow> json \<Rightarrow> string \<Rightarrow> exn + string" where
  "table_get t (JStr s) d = Inr (case map_of t s of None \<Rightarrow> d | Some v \<Rightarrow> v)"
| "table_get t (JArr xs) d = Inl TypeError"
| "table_get t (JObj kvs) d = Inl TypeError"
| "table_get t v d = Inr d"

fun rename_get :: "(string \<times> string) list \<Rightarrow> json \<Rightarrow> exn + json" where
  "rename_get t (JStr s) = Inr (JStr (case map_of t s of None \<Rightarrow> s | Some v \<Rightarrow> v))"
| "rename_get t (JArr xs) = Inl TypeError"
| "rename_get t (JObj kvs) = Inl TypeError"
| "rename_get t v = Inr v"

text \<open>A loop that builds a list, left at the first exception.\<close>

fun map_exn :: "('a \<Rightarrow> exn + 'b) \<Rightarrow> 'a list \<Rightarrow> exn + 'b list" where
  "map_exn f [] = Inr []"
| "map_exn f (x # xs) =
     (case f x of
        Inl e \<Rightarrow> Inl e
      | Inr y \<Rightarrow> (case map_exn f xs of Inl e \<Rightarrow> Inl e | Inr ys \<Rightarrow> Inr (y # ys)))"

definition bind_exn :: "exn + 'a \<Rightarrow> ('a \<Rightarrow> exn + 'b) \<Rightarrow> exn + 'b" where
  "bind_exn m f = (case m of Inl e \<Rightarrow> Inl e | Inr x \<Rightarrow> f x)"

text \<open>One pass of the loop over \<open>msg["tool_calls"]\<close> in \<open>_convert_assistant_msg\<close>.\<close>

definition convert_tool_call :: "runtime \<Rightarrow> json \<Rightarrow> exn + json" where
  "convert_tool_call rt tc =
     bind_exn (py_item tc ''function'') (\<lambda>f.
     bind_exn (py_item f ''arguments'') (\<lambda>args.
     bind_exn (case args of
                 JStr s \<Rightarrow> (case json_loads rt s of
                              Loaded v \<Rightarrow> Inr v
                            | DecodeError \<Rightarrow> Inr (JObj [(''raw'', JStr s)])
                            | LoadRaises e \<Rightarrow> Inl e)
               | _ \<Rightarrow> Inr args) (\<lambda>args'.
     bind_exn (py_item tc ''function'') (\<lambda>f'.
     bind_exn (py_item f' ''name'') (\<lambda>name.
     bind_exn (py_item tc ''id'') (\<lambda>tc_id.
     bind_exn (rename_get TOOL_NAME_TO_API name) (\<lambda>api_name.
     Inr (JObj [(''type'', JStr ''tool_use''),
                (''id'', tc_id),
                (''name'', api_name),
                (''input'', args')]))))))))"

definition convert_assistant_msg :: "runtime \<Rightarrow> json \<Rightarrow> exn + json" where
  "convert_assistant_msg rt msg =
     bind_exn (py_get msg ''content'' JNull) (\<lambda>c.
     bind_exn (if truthy c
               then bind_exn (py_item msg ''content'') (\<lambda>txt.
                    Inr [JObj [(''type'', JStr ''text''), (''text'', txt)]])
               else Inr []) (\<lambda>text_blocks.
     bind_exn (py_get msg ''tool_calls'' JNull) (\<lambda>tcs.
     bind_exn (if truthy tcs
               then bind_exn (py_item msg ''tool_calls'') (\<lambda>tcs'.
                    bind_exn (py_iter tcs') (\<lambda>items.
                    map_exn (convert_tool_call rt) items))
               else Inr []) (\<lambda>tool_blocks.
     let content_blocks = text_blocks @ tool_blocks
     in
     bind_exn (if content_blocks \<noteq> [] then Inr (JArr content_blocks)
               else py_get msg ''content'' (JStr [])) (\<lambda>content.
     Inr (JObj [(''role'', JStr ''assistant''), (''content'', content)]))))))"

definition convert_tool :: "json \<Rightarrow> exn + json" where
  "convert_tool tool =
     bind_exn (py_get tool ''function'' tool) (\<lambda>func.
     bind_exn (py_item func ''name'') (\<lambda>name.
     bind_exn (rename_get TOOL_NAME_TO_API name) (\<lambda>api_name.
     bind_exn (py_get func ''description'' (JStr [])) (\<lambda>description.
     bind_exn (py_get func ''parameters'' (JObj [])) (\<lambda>parameters.
     Inr (JObj [(''name'', api_name),
                (''description'', description),
                (''input_schema'', parameters)]))))))"

definition convert_tools :: "json list \<Rightarrow> exn + json list" where
  "convert_tools tools = map_exn convert_tool tools"

text \<open>
  One pass of the loop over \<open>messages\<close> in \<open>_build_body\<close>: what the message adds to
  \<open>system_parts\<close> and to \<open>anthropic_messages\<close>.
\<close>

definition convert_message :: "runtime \<Rightarrow> json \<Rightarrow> exn + (string list \<times> json list)" where
  "convert_message rt msg =
     bind_exn (py_item msg ''role'') (\<lambda>role.
     if role = JStr ''system'' then
       bind_exn (py_item msg ''content'') (\<lambda>content.
       Inr (case content of JStr s \<Rightarrow> ([s], []) | _ \<Rightarrow> ([], [])))
     else if role = JStr ''tool'' then
       bind_exn (py_get msg ''tool_call_id'' (JStr [])) (\<lambda>tool_call_id.
       bind_exn (py_get msg ''content'' (JStr [])) (\<lambda>content.
       Inr ([], [JObj [(''role'', JStr ''user''),
                       (''content'', JArr [JObj [(''type'', JStr ''tool_result''),
                                                  (''tool_use_id'', tool_call_id),
                                                  (''content'', content)]])]])))
     else if role = JStr ''assistant'' then
       bind_exn (convert_assistant_msg rt msg) (\<lambda>converted. Inr ([], [converted]))
     else
       bind_exn (py_item msg ''content'') (\<lambda>content.
       Inr ([], [JObj [(''role'', JStr ''user''), (''content'', content)]])))"

fun convert_messages :: "runtime \<Rightarrow> json list \<Rightarrow> exn + (string list \<times> json list)" where
  "convert_messages rt [] = Inr ([], [])"
| "convert_messages rt (msg # rest) =
     (case convert_message rt msg of
        Inl e \<Rightarrow> Inl e
      | Inr (sys, out) \<Rightarrow>
          (case convert_messages rt rest of
             Inl e \<Rightarrow> Inl e
           | Inr (syss, outs) \<Rightarrow> Inr (sys @ syss, out @ outs)))"

definition text_block :: "string \<Rightarrow> json" where
  "text_block part = JObj [(''type'', JStr ''text''), (''text'', JStr part)]"

definition build_body ::
  "runtime \<Rightarrow> json list \<Rightarrow> json list option \<Rightarrow> string \<Rightarrow> int \<Rightarrow> json \<Rightarrow> exn + json" where
  "build_body rt messages tools model max_tokens temperature =
     bind_exn (convert_messages rt messages) (\<lambda>(parts, anthropic_messages).
     let system_parts = CLAUDE_CODE_SYSTEM_PREFIX # parts;
         system_blocks = map text_block system_parts;
         body = [(''model'', JStr model),
                 (''max_tokens'', JInt max_tokens),
                 (''temperature'', temperature),
                 (''system'', JArr system_blocks),
                 (''messages'', JArr anthropic_messages)]
     in case tools of
          None \<Rightarrow> Inr (JObj body)
        | Some ts \<Rightarrow>
            if ts = [] then Inr (JObj body)
            else bind_exn (convert_tools ts) (\<lambda>converted.
                 Inr (JObj (dict_set body ''tools'' (JArr converted)))))"


text \<open>
  Modelled from the spec: \<open>ToolCallRequest\<close> and \<open>LLMResponse\<close> are declared in
  \<open>nanobot.providers.base\<close>, which is not among the sources. A tool-call request has an id,
  a name and arguments; a response has an optional text, the tool-call requests in order, a
  finish reason and the usage counts. A response built without tool calls and usage has none.
\<close>

record tool_call_request =
  tc_id :: json
  tc_name :: json
  tc_arguments :: json

record llm_response =
  content :: "string option"
  tool_calls :: "tool_call_request list"
  finish_reason :: string
  usage :: dict

text \<open>\<open>a + b\<close>: integers add, strings and lists concatenate.\<close>

fun py_add :: "json \<Rightarrow> json \<Rightarrow> exn + json" where
  "py_add (JStr a) (JStr b) = Inr (JStr (a @ b))"
| "py_add (JArr a) (JArr b) = Inr (JArr (a @ b))"
| "py_add a b =
     (case (py_int a, py_int b) of
        (Inr i, Inr j) \<Rightarrow> Inr (JInt (i + j))
      | _ \<Rightarrow> Inl TypeError)"

text \<open>\<open>sep.join(parts)\<close>: every part has to be a string.\<close>

fun py_join :: "string \<Rightarrow> json list \<Rightarrow> exn + string" where
  "py_join sep [] = Inr []"
| "py_join sep [JStr s] = Inr s"
| "py_join sep (JStr s # rest) =
     (case py_join sep rest of Inl e \<Rightarrow> Inl e | Inr t \<Rightarrow> Inr (s @ sep @ t))"
| "py_join sep (_ # rest) = Inl TypeError"

text \<open>
  One pass of the loop over the content blocks in \<open>_parse_response\<close>: what the block adds
  to \<open>content_text\<close> and to \<open>tool_calls\<close>.
\<close>

definition parse_block :: "json \<Rightarrow> exn + (json list \<times> tool_call_request list)" where
  "parse_block block =
     bind_exn (py_item block ''type'') (\<lambda>ty.
     if ty = JStr ''text'' then
       bind_exn (py_item block ''text'') (\<lambda>txt. Inr ([txt], []))
     else
       bind_exn (py_item block ''type'') (\<lambda>ty'.
       if ty' = JStr ''tool_use'' then
         bind_exn (py_item block ''name'') (\<lambda>api_name.
         bind_exn (py_item block ''id'') (\<lambda>block_id.
         bind_exn (rename_get TOOL_NAME_FROM_API api_name) (\<lambda>name.
         bind_exn (py_get block ''input'' (JObj [])) (\<lambda>input.
         Inr ([], [\<lparr>tc_id = block_id, tc_name = name, tc_arguments = input\<rparr>])))))
       else Inr ([], [])))"

fun parse_blocks :: "json list \<Rightarrow> exn + (json list \<times> tool_call_request list)" where
  "parse_blocks [] = Inr ([], [])"
| "parse_blocks (block # rest) =
     (case parse_block block of
        Inl e \<Rightarrow> Inl e
      | Inr (txts, tcs) \<Rightarrow>
          (case parse_blocks rest of
             Inl e \<Rightarrow> Inl e
           | Inr (txts', tcs') \<Rightarrow> Inr (txts @ txts', tcs @ tcs')))"

definition finish_map :: "(string \<times> string) list" where
  "finish_map = [(''end_turn'', ''stop''), (''tool_use'', ''tool_calls''), (''max_tokens'', ''length'')]"

definition parse_usage :: "json \<Rightarrow> exn + dict" where
  "parse_usage data =
     bind_exn (py_contains data ''usage'') (\<lambda>has_usage.
     if has_usage then
       bind_exn (py_item data ''usage'') (\<lambda>u.
       bind_exn (py_get u ''input_tokens'' (JInt 0)) (\<lambda>input_tokens.
       bind_exn (py_get u ''output_tokens'' (JInt 0)) (\<lambda>output_tokens.
       bind_exn (py_add input_tokens output_tokens) (\<lambda>total.
       Inr [(''prompt_tokens'', input_tokens),
            (''completion_tokens'', output_tokens),
            (''total_tokens'', total)]))))
     else Inr [])"

definition parse_response :: "json \<Rightarrow> exn + llm_response" where
  "parse_response data =
     bind_exn (py_get data ''content'' (JArr [])) (\<lambda>blocks.
     bind_exn (py_iter blocks) (\<lambda>items.
     bind_exn (parse_blocks items) (\<lambda>(content_text, calls).
     bind_exn (py_get data ''stop_reason'' (JStr ''end_turn'')) (\<lambda>stop_reason.
     bind_exn (table_get finish_map stop_reason ''stop'') (\<lambda>reason.
     bind_exn (parse_usage data) (\<lambda>usage_counts.
     bind_exn (if content_text \<noteq> []
               then bind_exn (py_join [CHR 0x0A] content_text) (\<lambda>t. Inr (Some t))
               else Inr None) (\<lambda>txt.
     Inr \<lparr>content = txt,
          tool_calls = calls,
          finish_reason = reason,
          usage = usage_counts\<rparr>)))))))"


section \<open>claude_code_provider: the request\<close>

record provider =
  oauth_token :: json
  api_key :: json
  default_model :: string

text \<open>\<open>model.split("/", 1)[1]\<close> when the name has a slash: what follows the first slash.\<close>

definition strip_provider_prefix :: "string \<Rightarrow> string" where
  "strip_provider_prefix model =
     (if CHR ''/'' \<in> set model then tl (dropWhile (\<lambda>c. c \<noteq> CHR ''/'') model) else model)"

definition init_provider :: "string \<Rightarrow> string \<Rightarrow> provider" where
  "init_provider token model =
     \<lparr>oauth_token = JStr token, api_key = JStr token,
      default_model = strip_provider_prefix model\<rparr>"

text \<open>
  \<open>a == b\<close> on values: \<open>True\<close> and \<open>False\<close> are the integers 1 and 0, and dictionaries are
  equal whatever the order of their keys.
\<close>

fun canon :: "json \<Rightarrow> json" where
  "canon JNull = JNull"
| "canon (JBool b) = JInt (if b then 1 else 0)"
| "canon (JInt i) = JInt i"
| "canon (JStr s) = JStr s"
| "canon (JArr xs) = JArr (map canon xs)"
| "canon (JObj kvs) = JObj (sort_key fst (map (\<lambda>kv. (fst kv, canon (snd kv))) kvs))"

definition py_eq :: "json \<Rightarrow> json \<Rightarrow> bool" where
  "py_eq a b \<longleftrightarrow> canon a = canon b"

text \<open>The decimal text of an integer, as an f-string prints it.\<close>

definition digit_char :: "nat \<Rightarrow> char" where
  "digit_char d =
     (if d = 0 then CHR ''0'' else if d = 1 then CHR ''1'' else if d = 2 then CHR ''2''
      else if d = 3 then CHR ''3'' else if d = 4 then CHR ''4'' else if d = 5 then CHR ''5''
      else if d = 6 then CHR ''6'' else if d = 7 then CHR ''7'' else if d = 8 then CHR ''8''
      else CHR ''9'')"

fun digits :: "nat \<Rightarrow> string" where
  "digits n =
     (if n < 10 then [digit_char n]
      else digits (n div 10) @ [digit_char (n mod 10)])"

declare digits.simps [simp del]

definition py_str_int :: "int \<Rightarrow> string" where
  "py_str_int i = (if i < 0 then CHR ''-'' # digits (nat (- i)) else digits (nat i))"

text \<open>
  \<open>ClaudeCodeProvider._refresh_token\<close>: the token is resolved again, and taken over when it
  is a true value different from the one in use.
\<close>

definition provider_refresh_token :: "provider \<Rightarrow> world \<Rightarrow> (exn + bool) \<times> provider \<times> world" where
  "provider_refresh_token p w =
     (case get_claude_code_token w of
        (Inl e, w') \<Rightarrow> (Inl e, p, w')
      | (Inr new_token, w') \<Rightarrow>
          if truthy new_token \<and> \<not> py_eq new_token (oauth_token p)
          then (Inr True, p\<lparr>oauth_token := new_token, api_key := new_token\<rparr>, w')
          else (Inr False, p, w'))"

text \<open>
  \<open>_send_request\<close>: one POST to the messages endpoint with the token in use. A failure of
  the transport is an exception; an answer is its status, its text and the parse of the
  text.
\<close>

definition send_request ::
  "provider \<Rightarrow> json \<Rightarrow> world \<Rightarrow> (exn + int \<times> string \<times> json option) \<times> world" where
  "send_request p body w =
     (let w' = record_event (MessagesPost (oauth_token p) body) w
      in case w_messages_endpoint w (w_log w) (oauth_token p) body of
           Failed \<Rightarrow> (Inl TransportError, w')
         | Resp status txt parsed \<Rightarrow> (Inr (status, txt, parsed), w'))"

definition error_response :: "string \<Rightarrow> llm_response" where
  "error_response msg =
     \<lparr>content = Some msg, tool_calls = [], finish_reason = ''error'', usage = []\<rparr>"

text \<open>Lines 93 to 101 of \<open>chat\<close>: what is made of the last answer.\<close>

definition read_answer :: "int \<times> string \<times> json option \<Rightarrow> exn + llm_response" where
  "read_answer resp =
     (case resp of (status, txt, parsed) \<Rightarrow>
        if status \<noteq> 200
        then Inr (error_response
                    (''Error from Anthropic API ('' @ py_str_int status @ ''): '' @ take 500 txt))
        else (case parsed of None \<Rightarrow> Inl ValueError | Some data \<Rightarrow> parse_response data))"

text \<open>Lines 87 to 101 of \<open>chat\<close>: the body of the \<open>try\<close>.\<close>

definition chat_try ::
  "provider \<Rightarrow> json \<Rightarrow> world \<Rightarrow> (exn + llm_response) \<times> provider \<times> world" where
  "chat_try p body w =
     (case send_request p body w of
        (Inl e, w1) \<Rightarrow> (Inl e, p, w1)
      | (Inr resp, w1) \<Rightarrow>
          if fst resp = 401 then
            (case provider_refresh_token p w1 of
               (Inl e, p2, w2) \<Rightarrow> (Inl e, p2, w2)
             | (Inr refreshed, p2, w2) \<Rightarrow>
                 if refreshed then
                   (case send_request p2 body w2 of
                      (Inl e, w3) \<Rightarrow> (Inl e, p2, w3)
                    | (Inr resp', w3) \<Rightarrow> (read_answer resp', p2, w3))
                 else (read_answer resp, p2, w2))
          else (read_answer resp, p, w1))"

definition chat ::
  "runtime \<Rightarrow> provider \<Rightarrow> json list \<Rightarrow> json list option \<Rightarrow> string option \<Rightarrow> int \<Rightarrow> json \<Rightarrow>
   world \<Rightarrow> (exn + llm_response) \<times> provider \<times> world" where
  "chat rt p messages tools model max_tokens temperature w =
     (let model1 = (case model of
                      None \<Rightarrow> default_model p
                    | Some m \<Rightarrow> if m = [] then default_model p else m);
          model2 = strip_provider_prefix model1
      in case build_body rt messages tools model2 max_tokens temperature of
           Inl e \<Rightarrow> (Inl e, p, w)
         | Inr body \<Rightarrow>
             (case chat_try p body w of
                (Inl e, p', w') \<Rightarrow>
                  (Inr (error_response (''Error calling Anthropic API: '' @ exn_str rt e)), p', w')
              | (Inr r, p', w') \<Rightarrow> (Inr r, p', w')))"



section \<open>Notions used in the statements\<close>

text \<open>
  Following the spec's words, for comparison with \<open>build_body\<close>: the texts of the
  system-role messages, in their order. A system-role message whose content is not a string
  has no text.
\<close>

definition system_text_spec :: "json \<Rightarrow> string list" where
  "system_text_spec msg =
     (case msg of
        JObj kvs \<Rightarrow>
          if map_of kvs ''role'' = Some (JStr ''system'')
          then (case map_of kvs ''content'' of Some (JStr s) \<Rightarrow> [s] | _ \<Rightarrow> [])
          else []
      | _ \<Rightarrow> [])"

definition system_texts_spec :: "json list \<Rightarrow> string list" where
  "system_texts_spec messages = concat (map system_text_spec messages)"

text \<open>The requests to the messages endpoint among the events of a log.\<close>

fun is_messages_post :: "event \<Rightarrow> bool" where
  "is_messages_post (MessagesPost token body) = True"
| "is_messages_post _ = False"

text \<open>
  The world once \<open>_is_token_expired\<close> has answered: the clock has been read unless
  \<open>expiresAt\<close> is \<open>None\<close>.
\<close>

definition after_check :: "json \<Rightarrow> world \<Rightarrow> world" where
  "after_check expires_at w = (if expires_at = JNull then w else w\<lparr>w_ticks := Suc (w_ticks w)\<rparr>)"

text \<open>
  The events that a resolution of the token can add to the log after its call marker, and
  the computations that add only such events.
\<close>

fun auth_event :: "event \<Rightarrow> bool" where
  "auth_event Resolve = False"
| "auth_event (MessagesPost token body) = False"
| "auth_event _ = True"

definition extends_log :: "'a io \<Rightarrow> bool" where
  "extends_log m \<longleftrightarrow>
     (\<forall>w. \<exists>evs. w_log (snd (m w)) = w_log w @ evs \<and> list_all auth_event evs)"


section \<open>Sample inputs\<close>

text \<open>
  A credential document, and a world in which the token endpoint always gives the same
  answer and the messages endpoint gives the answers of a list, one for each request.
\<close>

definition sample_credentials :: "json \<Rightarrow> json \<Rightarrow> json \<Rightarrow> json" where
  "sample_credentials access refresh expires =
     JObj [(''claudeAiOauth'',
            JObj [(''accessToken'', access),
                  (''refreshToken'', refresh),
                  (''expiresAt'', expires),
                  (''scopes'', JArr [JStr ''user:inference''])])]"

definition sample_world :: "platform \<Rightarrow> json \<Rightarrow> http_outcome \<Rightarrow> http_outcome list \<Rightarrow> world" where
  "sample_world system doc token_answer answers =
     \<lparr>w_system = system, w_user = Some ''alice'', w_home = True,
      w_file = Doc doc, w_file_write_ok = True, w_file_write_truncates = False,
      w_keychain = Doc doc, w_kc_delete = ProcOk, w_kc_add = ProcOk,
      w_httpx = True, w_requests = False,
      w_token_endpoint = (\<lambda>log payload. token_answer),
      w_messages_endpoint = (\<lambda>log token body.
         case drop (length (filter is_messages_post log)) answers of
           [] \<Rightarrow> Failed
         | a # rest \<Rightarrow> a),
      w_time_ms = (\<lambda>n. 1700000000000 + 1000 * int n),
      w_ticks = 0,
      w_log = []\<rparr>"



text \<open>
  The text of 4301 digits \<open>1\<close> followed by \<open> x\<close>: it is not JSON, and \<open>json.loads\<close>
  raises \<open>ValueError\<close> on it, the digits being more than an integer literal may have.
\<close>

definition oversized_number :: string where
  "oversized_number = CHR ''1'' # replicate 4300 (CHR ''1'') @ '' x''"

text \<open>
  A runtime whose parser raises \<open>ValueError\<close> on that text, knows the one JSON text
  \<open>{"x":1}\<close> and rejects every other text; and a system message.
\<close>

definition sample_runtime :: runtime where
  "sample_runtime =
     \<lparr>json_loads = (\<lambda>s. if s = oversized_number then LoadRaises ValueError
                         else if s = ''{'' @ [CHR 0x22] @ ''x'' @ [CHR 0x22] @ '':1}''
                         then Loaded (JObj [(''x'', JInt 1)]) else DecodeError),
      exn_str = (\<lambda>e. case e of KeyError k \<Rightarrow> [CHR 0x27] @ k @ [CHR 0x27] | _ \<Rightarrow> ''failure'')\<rparr>"

definition system_message :: "string \<Rightarrow> json" where
  "system_message s = JObj [(''role'', JStr ''system''), (''content'', JStr s)]"

text \<open>A provider that holds \<open>token-A\<close>, a user message, and the request built from it.\<close>

definition sample_provider :: provider where
  "sample_provider = init_provider ''token-A'' ''anthropic/claude-sonnet-4-5''"

definition user_message :: "string \<Rightarrow> json" where
  "user_message s = JObj [(''role'', JStr ''user''), (''content'', JStr s)]"

definition sample_body :: json where
  "sample_body =
     JObj [(''model'', JStr ''claude-sonnet-4-5''),
           (''max_tokens'', JInt 4096),
           (''temperature'', JInt 1),
           (''system'', JArr [text_block CLAUDE_CODE_SYSTEM_PREFIX]),
           (''messages'', JArr [user_message ''hi''])]"

section \<open>Properties of credential resolution\<close>

lemmas io_defs = ret_def raise_def lift_def bind_def catch_def

lemma map_of_dict_set: "map_of (dict_set kvs k v) k' = (if k' = k then Some v else map_of kvs k')"
  by (induction kvs) auto

lemma resolve_reads:
  assumes "(w_system w = Darwin \<and> w_user w \<noteq> None \<and> w_keychain w = Doc data \<and> st = ''keychain'')
         \<or> ((w_system w = Linux \<or> w_system w = Windows) \<and> w_home w \<and> w_file w = Doc data \<and> st = ''file'')"
  shows "get_claude_code_token w = catch (extract_token data st) JNull (record_event Resolve w)"
  using assms
  by (auto simp: get_claude_code_token_def get_token_from_keychain_def
      get_token_from_credentials_file_def record_event_def Let_def)

lemma py_get_obj: "py_get x k d = Inr v \<Longrightarrow> \<exists>kvs. x = JObj kvs"
  by (cases x) auto

lemma extract_valid:
  assumes "py_get data ''claudeAiOauth'' (JObj []) = Inr oauth"
    and "py_get oauth ''accessToken'' JNull = Inr access_token"
    and "py_get oauth ''expiresAt'' JNull = Inr (JInt e)"
    and "w_time_ms w (w_ticks w) + EXPIRY_BUFFER_MS < e"
  shows "extract_token data st w =
         (Inr (if truthy access_token then access_token else JNull), w\<lparr>w_ticks := Suc (w_ticks w)\<rparr>)"
proof -
  obtain kvs where o: "oauth = JObj kvs" using assms(2) py_get_obj by blast
  show ?thesis using assms unfolding o
    by (simp add: extract_token_def is_token_expired_def current_time_ms_def use_token_def io_defs)
qed

lemma expired_check:
  assumes "expires_at = JNull \<or> (\<exists>e. expires_at = JInt e \<and> w_time_ms w (w_ticks w) + EXPIRY_BUFFER_MS \<ge> e)"
  shows "is_token_expired expires_at w = (Inr True, after_check expires_at w)"
  using assms by (auto simp: is_token_expired_def current_time_ms_def io_defs after_check_def)

lemma extract_expired:
  assumes "py_get data ''claudeAiOauth'' (JObj []) = Inr oauth"
    and "py_get oauth ''refreshToken'' JNull = Inr refresh_token"
    and "py_get oauth ''expiresAt'' JNull = Inr expires_at"
    and "expires_at = JNull \<or> (\<exists>e. expires_at = JInt e \<and> w_time_ms w (w_ticks w) + EXPIRY_BUFFER_MS \<ge> e)"
  shows "extract_token data st w =
         (if \<not> truthy refresh_token then (Inr JNull, after_check expires_at w)
          else bind (auth_refresh_token refresh_token) (\<lambda>new_token_data.
                 if truthy new_token_data
                 then apply_refresh data oauth refresh_token new_token_data st
                 else ret JNull) (after_check expires_at w))"
proof -
  obtain kvs where o: "oauth = JObj kvs" using assms(2) py_get_obj by blast
  have "extract_token data st w =
        bind (is_token_expired expires_at) (\<lambda>expired.
          if expired then
            (if \<not> truthy refresh_token then ret JNull
             else bind (auth_refresh_token refresh_token) (\<lambda>new_token_data.
               if truthy new_token_data
               then apply_refresh data oauth refresh_token new_token_data st
               else ret JNull))
          else use_token (case map_of kvs ''accessToken'' of None \<Rightarrow> JNull | Some v \<Rightarrow> v)) w"
    using assms(1-3) unfolding o by (simp add: extract_token_def lift_def bind_def)
  then show ?thesis
    by (simp add: bind_def[of "is_token_expired expires_at"] expired_check[OF assms(4)] ret_def)
qed

lemma refresh_fails:
  assumes "w_httpx w \<or> w_requests w"
    and "case w_token_endpoint w (w_log w) (refresh_payload rt) of Failed \<Rightarrow> True | Resp s t b \<Rightarrow> s \<noteq> 200"
  shows "auth_refresh_token rt w = (Inr JNull, record_event (TokenPost (refresh_payload rt)) w)"
  using assms
  by (auto simp: auth_refresh_token_def refresh_token_with_httpx_def
      refresh_token_with_requests_def Let_def split: http_outcome.splits)

lemma refresh_answers:
  assumes "w_httpx w \<or> w_requests w"
    and "w_token_endpoint w (w_log w) (refresh_payload rt) = Resp 200 txt (Some body)"
  shows "auth_refresh_token rt w = (Inr body, record_event (TokenPost (refresh_payload rt)) w)"
  using assms
  by (auto simp: auth_refresh_token_def refresh_token_with_httpx_def
      refresh_token_with_requests_def Let_def)


lemma apply_refresh_ok:
  assumes "map_of body ''expires_in'' = None \<or> (\<exists>n. map_of body ''expires_in'' = Some (JInt n))"
    and "map_of body ''scope'' = None \<or> (\<exists>s. map_of body ''scope'' = Some (JStr s))"
  shows "apply_refresh (JObj dkvs) (JObj okvs) rt (JObj body) st w =
     (let now = w_time_ms w (w_ticks w);
          secs = (case map_of body ''expires_in'' of Some (JInt n) \<Rightarrow> n | _ \<Rightarrow> 3600);
          new_access = (case map_of body ''access_token'' of None \<Rightarrow> JNull | Some v \<Rightarrow> v);
          o3 = dict_set (dict_set (dict_set okvs ''accessToken'' new_access)
                 ''refreshToken'' (case map_of body ''refresh_token'' of None \<Rightarrow> rt | Some v \<Rightarrow> v))
                 ''expiresAt'' (JInt (now + secs * 1000));
          o4 = (case map_of body ''scope'' of
                  Some (JStr s) \<Rightarrow> dict_set o3 ''scopes'' (JArr (map JStr (py_split s)))
                | _ \<Rightarrow> o3);
          data' = JObj (dict_set dkvs ''claudeAiOauth'' (JObj o4))
      in bind (if st = ''keychain'' then save_credentials_to_keychain data'
               else save_credentials_to_file data')
           (\<lambda>saved. use_token new_access) (w\<lparr>w_ticks := Suc (w_ticks w)\<rparr>))"
  using assms
  by (auto simp: apply_refresh_def io_defs current_time_ms_def Let_def split: option.splits)



text \<open>
  C8. A credential document with an access token whose \<open>expiresAt\<close> is more than five
  minutes after the current time: the resolution returns the stored access token. The only
  trace it leaves is its own call marker: no request to the token endpoint and no write to
  the credential file or the keychain, which both stay as they were.
\<close>

theorem valid_token_is_returned_without_refresh:
  assumes "(w_system w = Darwin \<and> w_user w \<noteq> None \<and> w_keychain w = Doc data)
         \<or> ((w_system w = Linux \<or> w_system w = Windows) \<and> w_home w \<and> w_file w = Doc data)"
    and "py_get data ''claudeAiOauth'' (JObj []) = Inr oauth"
    and "py_get oauth ''accessToken'' JNull = Inr access_token"
    and "truthy access_token"
    and "py_get oauth ''expiresAt'' JNull = Inr (JInt expires_at)"
    and "w_time_ms w (w_ticks w) + EXPIRY_BUFFER_MS < expires_at"
  shows "\<exists>w'. get_claude_code_token w = (Inr access_token, w')
             \<and> w_log w' = w_log w @ [Resolve]
             \<and> w_file w' = w_file w \<and> w_keychain w' = w_keychain w"
proof -
  obtain st where r: "(w_system w = Darwin \<and> w_user w \<noteq> None \<and> w_keychain w = Doc data \<and> st = ''keychain'')
         \<or> ((w_system w = Linux \<or> w_system w = Windows) \<and> w_home w \<and> w_file w = Doc data \<and> st = ''file'')"
    using assms(1) by blast
  have t: "w_time_ms (record_event Resolve w) (w_ticks (record_event Resolve w)) + EXPIRY_BUFFER_MS < expires_at"
    using assms(6) by (simp add: record_event_def)
  have "get_claude_code_token w =
        (Inr access_token, (record_event Resolve w)\<lparr>w_ticks := Suc (w_ticks (record_event Resolve w))\<rparr>)"
    using assms(4) by (simp add: resolve_reads[OF r] catch_def extract_valid[OF assms(2,3,5) t])
  then show ?thesis by (simp add: record_event_def)
qed

theorem valid_token_is_returned_without_refresh_witness:
  "fst (get_claude_code_token
     (sample_world Linux (sample_credentials (JStr ''token-A'') (JStr ''refresh-A'') (JInt 1700000300001)) Failed []))
   = Inr (JStr ''token-A'')
   \<and> w_log (snd (get_claude_code_token
     (sample_world Linux (sample_credentials (JStr ''token-A'') (JStr ''refresh-A'') (JInt 1700000300001)) Failed [])))
   = [Resolve]"
  using valid_token_is_returned_without_refresh
    [of "sample_world Linux (sample_credentials (JStr ''token-A'') (JStr ''refresh-A'') (JInt 1700000300001)) Failed []"
        "sample_credentials (JStr ''token-A'') (JStr ''refresh-A'') (JInt 1700000300001)"
        "JObj [(''accessToken'', JStr ''token-A''), (''refreshToken'', JStr ''refresh-A''),
               (''expiresAt'', JInt 1700000300001), (''scopes'', JArr [JStr ''user:inference''])]"
        "JStr ''token-A''" 1700000300001]
  by (auto simp: sample_world_def sample_credentials_def EXPIRY_BUFFER_MS_def)



text \<open>
  C10. A credential document without a refresh token (absent, \<open>null\<close> or empty) whose
  \<open>expiresAt\<close> is absent or within the five-minute buffer of the current time: the
  resolution gives no token, and the only trace it leaves is its own call marker, so no
  HTTP request of any kind is made; the stores stay as they were.
\<close>

theorem no_refresh_token_gives_no_token:
  assumes "(w_system w = Darwin \<and> w_user w \<noteq> None \<and> w_keychain w = Doc data)
         \<or> ((w_system w = Linux \<or> w_system w = Windows) \<and> w_home w \<and> w_file w = Doc data)"
    and "py_get data ''claudeAiOauth'' (JObj []) = Inr oauth"
    and "py_get oauth ''refreshToken'' JNull = Inr refresh_token"
    and "\<not> truthy refresh_token"
    and "py_get oauth ''expiresAt'' JNull = Inr expires_at"
    and "expires_at = JNull
         \<or> (\<exists>e. expires_at = JInt e \<and> w_time_ms w (w_ticks w) + EXPIRY_BUFFER_MS \<ge> e)"
  shows "\<exists>w'. get_claude_code_token w = (Inr JNull, w')
             \<and> w_log w' = w_log w @ [Resolve]
             \<and> w_file w' = w_file w \<and> w_keychain w' = w_keychain w"
proof -
  obtain st where r: "(w_system w = Darwin \<and> w_user w \<noteq> None \<and> w_keychain w = Doc data \<and> st = ''keychain'')
         \<or> ((w_system w = Linux \<or> w_system w = Windows) \<and> w_home w \<and> w_file w = Doc data \<and> st = ''file'')"
    using assms(1) by blast
  let ?w = "record_event Resolve w"
  have t: "expires_at = JNull
         \<or> (\<exists>e. expires_at = JInt e \<and> w_time_ms ?w (w_ticks ?w) + EXPIRY_BUFFER_MS \<ge> e)"
    using assms(6) by (simp add: record_event_def)
  have "get_claude_code_token w = (Inr JNull, after_check expires_at ?w)"
    using assms(4) by (simp add: resolve_reads[OF r] catch_def extract_expired[OF assms(2,3,5) t])
  then show ?thesis by (simp add: record_event_def after_check_def)
qed

text \<open>The keychain variant with a token that expires exactly at the edge of the buffer.\<close>

theorem no_refresh_token_gives_no_token_witness:
  "fst (get_claude_code_token
     (sample_world Darwin (sample_credentials (JStr ''token-A'') JNull (JInt 1700000300000)) Failed []))
   = Inr JNull
   \<and> w_log (snd (get_claude_code_token
     (sample_world Darwin (sample_credentials (JStr ''token-A'') JNull (JInt 1700000300000)) Failed [])))
   = [Resolve]"
  using no_refresh_token_gives_no_token
    [of "sample_world Darwin (sample_credentials (JStr ''token-A'') JNull (JInt 1700000300000)) Failed []"
        "sample_credentials (JStr ''token-A'') JNull (JInt 1700000300000)"
        "JObj [(''accessToken'', JStr ''token-A''), (''refreshToken'', JNull),
               (''expiresAt'', JInt 1700000300000), (''scopes'', JArr [JStr ''user:inference''])]"
        JNull "JInt 1700000300000"]
  by (auto simp: sample_world_def sample_credentials_def EXPIRY_BUFFER_MS_def)

text \<open>
  C4. The credential is expired and has a refresh token, an HTTP library is there, and the
  token endpoint fails in transport or answers with a status other than 200: the resolution
  gives no token; after its call marker the log holds the one request to the token endpoint
  and no write, and the credential file and the keychain entry are as they were.
\<close>

theorem failed_refresh_leaves_store_untouched:
  assumes "(w_system w = Darwin \<and> w_user w \<noteq> None \<and> w_keychain w = Doc data)
         \<or> ((w_system w = Linux \<or> w_system w = Windows) \<and> w_home w \<and> w_file w = Doc data)"
    and "py_get data ''claudeAiOauth'' (JObj []) = Inr oauth"
    and "py_get oauth ''refreshToken'' JNull = Inr refresh_token"
    and "truthy refresh_token"
    and "py_get oauth ''expiresAt'' JNull = Inr expires_at"
    and "expires_at = JNull
         \<or> (\<exists>e. expires_at = JInt e \<and> w_time_ms w (w_ticks w) + EXPIRY_BUFFER_MS \<ge> e)"
    and "w_httpx w \<or> w_requests w"
    and "case w_token_endpoint w (w_log w @ [Resolve]) (refresh_payload refresh_token) of
           Failed \<Rightarrow> True
         | Resp status txt body \<Rightarrow> status \<noteq> 200"
  shows "\<exists>w'. get_claude_code_token w = (Inr JNull, w')
             \<and> w_log w' = w_log w @ [Resolve, TokenPost (refresh_payload refresh_token)]
             \<and> w_file w' = w_file w \<and> w_keychain w' = w_keychain w"
proof -
  obtain st where r: "(w_system w = Darwin \<and> w_user w \<noteq> None \<and> w_keychain w = Doc data \<and> st = ''keychain'')
         \<or> ((w_system w = Linux \<or> w_system w = Windows) \<and> w_home w \<and> w_file w = Doc data \<and> st = ''file'')"
    using assms(1) by blast
  let ?w = "record_event Resolve w"
  let ?w1 = "after_check expires_at ?w"
  have t: "expires_at = JNull
         \<or> (\<exists>e. expires_at = JInt e \<and> w_time_ms ?w (w_ticks ?w) + EXPIRY_BUFFER_MS \<ge> e)"
    using assms(6) by (simp add: record_event_def)
  have lib: "w_httpx ?w1 \<or> w_requests ?w1"
    using assms(7) by (simp add: record_event_def after_check_def)
  have ans: "case w_token_endpoint ?w1 (w_log ?w1) (refresh_payload refresh_token) of
           Failed \<Rightarrow> True
         | Resp status txt body \<Rightarrow> status \<noteq> 200"
    using assms(8) by (simp add: record_event_def after_check_def)
  have "get_claude_code_token w = (Inr JNull, record_event (TokenPost (refresh_payload refresh_token)) ?w1)"
    using assms(4)
    by (simp add: resolve_reads[OF r] catch_def extract_expired[OF assms(2,3,5) t]
        bind_def refresh_fails[OF lib ans] ret_def)
  then show ?thesis by (simp add: record_event_def after_check_def)
qed

text \<open>A refresh answered with status 400.\<close>

theorem failed_refresh_leaves_store_untouched_witness:
  "fst (get_claude_code_token
     (sample_world Linux (sample_credentials (JStr ''token-A'') (JStr ''refresh-A'') JNull)
        (Resp 400 ''invalid_grant'' None) []))
   = Inr JNull
   \<and> w_file (snd (get_claude_code_token
     (sample_world Linux (sample_credentials (JStr ''token-A'') (JStr ''refresh-A'') JNull)
        (Resp 400 ''invalid_grant'' None) [])))
   = Doc (sample_credentials (JStr ''token-A'') (JStr ''refresh-A'') JNull)"
  using failed_refresh_leaves_store_untouched
    [of "sample_world Linux (sample_credentials (JStr ''token-A'') (JStr ''refresh-A'') JNull)
           (Resp 400 ''invalid_grant'' None) []"
        "sample_credentials (JStr ''token-A'') (JStr ''refresh-A'') JNull"
        "JObj [(''accessToken'', JStr ''token-A''), (''refreshToken'', JStr ''refresh-A''),
               (''expiresAt'', JNull), (''scopes'', JArr [JStr ''user:inference''])]"
        "JStr ''refresh-A''" JNull]
  by (auto simp: sample_world_def sample_credentials_def)

lemma save_file_result:
  assumes "w_home w"
  shows "save_credentials_to_file d w =
         (Inr (w_file_write_ok w),
          w\<lparr>w_log := w_log w @ [FileWrite d],
            w_file := (if w_file_write_ok w then Doc d
                       else if w_file_write_truncates w then Garbled
                       else w_file w)\<rparr>)"
  using assms by (simp add: save_credentials_to_file_def record_event_def Let_def)

lemma save_keychain_result:
  assumes "w_user w \<noteq> None"
  shows "save_credentials_to_keychain d w =
         (Inr (w_kc_delete w \<noteq> ProcRaises \<and> w_kc_add w = ProcOk),
          w\<lparr>w_log := w_log w @ (if w_kc_delete w = ProcRaises then [KeychainDelete]
                                  else [KeychainDelete, KeychainAdd d]),
            w_keychain := (if w_kc_delete w = ProcRaises then w_keychain w
                           else if w_kc_add w = ProcOk then Doc d
                           else if w_kc_delete w = ProcOk then Missing
                           else w_keychain w)\<rparr>)"
  using assms
  by (auto simp: save_credentials_to_keychain_def record_event_def Let_def)

lemma extract_refreshed:
  assumes "py_get (JObj dkvs) ''claudeAiOauth'' (JObj []) = Inr (JObj okvs)"
    and "py_get (JObj okvs) ''refreshToken'' JNull = Inr refresh_token"
    and "truthy refresh_token"
    and "py_get (JObj okvs) ''expiresAt'' JNull = Inr expires_at"
    and "expires_at = JNull
         \<or> (\<exists>e. expires_at = JInt e \<and> w_time_ms w (w_ticks w) + EXPIRY_BUFFER_MS \<ge> e)"
    and "w_httpx w \<or> w_requests w"
    and "w_token_endpoint w (w_log w) (refresh_payload refresh_token) = Resp 200 txt (Some (JObj body))"
    and "body \<noteq> []"
    and "map_of body ''expires_in'' = None \<or> (\<exists>n. map_of body ''expires_in'' = Some (JInt n))"
    and "map_of body ''scope'' = None \<or> (\<exists>s. map_of body ''scope'' = Some (JStr s))"
    and "w1 = record_event (TokenPost (refresh_payload refresh_token)) (after_check expires_at w)"
    and "now = w_time_ms w (w_ticks w1)"
    and "secs = (case map_of body ''expires_in'' of Some (JInt n) \<Rightarrow> n | _ \<Rightarrow> 3600)"
    and "new_access = (case map_of body ''access_token'' of None \<Rightarrow> JNull | Some v \<Rightarrow> v)"
    and "o3 = dict_set (dict_set (dict_set okvs ''accessToken'' new_access)
                 ''refreshToken'' (case map_of body ''refresh_token'' of None \<Rightarrow> refresh_token | Some v \<Rightarrow> v))
                 ''expiresAt'' (JInt (now + secs * 1000))"
    and "o4 = (case map_of body ''scope'' of
                  Some (JStr s) \<Rightarrow> dict_set o3 ''scopes'' (JArr (map JStr (py_split s)))
                | _ \<Rightarrow> o3)"
    and "data' = JObj (dict_set dkvs ''claudeAiOauth'' (JObj o4))"
  shows "extract_token (JObj dkvs) st w =
         bind (if st = ''keychain'' then save_credentials_to_keychain data'
               else save_credentials_to_file data')
           (\<lambda>saved. use_token new_access) (w1\<lparr>w_ticks := Suc (w_ticks w1)\<rparr>)"
proof -
  let ?w0 = "after_check expires_at w"
  let ?w1 = "record_event (TokenPost (refresh_payload refresh_token)) ?w0"
  have lib: "w_httpx ?w0 \<or> w_requests ?w0"
    using assms(6) by (simp add: after_check_def)
  have ans: "w_token_endpoint ?w0 (w_log ?w0) (refresh_payload refresh_token) = Resp 200 txt (Some (JObj body))"
    using assms(7) by (simp add: after_check_def)
  have tm: "w_time_ms ?w1 = w_time_ms w"
    by (simp add: record_event_def after_check_def)
  have "extract_token (JObj dkvs) st w =
        apply_refresh (JObj dkvs) (JObj okvs) refresh_token (JObj body) st ?w1"
    using assms(3,8)
    by (simp add: extract_expired[OF assms(1,2,4,5)] bind_def[of "auth_refresh_token refresh_token"]
        refresh_answers[OF lib ans])
  then show ?thesis
    unfolding assms(11-17)
    by (simp only: apply_refresh_ok[OF assms(9,10)] tm Let_def)
qed

lemma refreshed_fields:
  assumes "o3 = dict_set (dict_set (dict_set okvs ''accessToken'' a) ''refreshToken'' r) ''expiresAt'' x"
    and "o4 = (case sc of Some (JStr s) \<Rightarrow> dict_set o3 ''scopes'' (JArr (map JStr (py_split s))) | _ \<Rightarrow> o3)"
    and "sc = None \<or> (\<exists>s. sc = Some (JStr s))"
  shows "map_of o4 ''accessToken'' = Some a"
    and "map_of o4 ''refreshToken'' = Some r"
    and "map_of o4 ''expiresAt'' = Some x"
    and "\<forall>s. sc = Some (JStr s) \<longrightarrow> map_of o4 ''scopes'' = Some (JArr (map JStr (py_split s)))"
  using assms by (auto simp: map_of_dict_set)

lemma use_token_true: "truthy t \<Longrightarrow> use_token t w = (Inr t, w)"
  by (simp add: use_token_def ret_def)

lemma use_token_false: "\<not> truthy t \<Longrightarrow> use_token t w = (Inr JNull, w)"
  by (simp add: use_token_def ret_def)

text \<open>
  C3, amended. The credential is expired (or has no \<open>expiresAt\<close>) and has a refresh
  token, and the token endpoint answers 200 with a JSON object in which \<open>access_token\<close> is
  a non-empty string, \<open>expires_in\<close> is an integer when present and \<open>scope\<close> is a string
  when present. Then the resolved token is the new access token, and the document handed to
  the store (and held by it when the write succeeds) has this access token, has
  \<open>expiresAt\<close> equal to the clock reading taken after the answer plus \<open>expires_in * 1000\<close>
  (3600 seconds when \<open>expires_in\<close> is absent), keeps the prior refresh token when the
  answer has none, and has the whitespace-separated words of \<open>scope\<close> as \<open>scopes\<close>.
\<close>

theorem refresh_success_updates_credentials:
  assumes "(w_system w = Darwin \<and> w_user w \<noteq> None \<and> w_keychain w = Doc data)
         \<or> ((w_system w = Linux \<or> w_system w = Windows) \<and> w_home w \<and> w_file w = Doc data)"
    and "py_get data ''claudeAiOauth'' (JObj []) = Inr oauth"
    and "py_get oauth ''refreshToken'' JNull = Inr refresh_token"
    and "truthy refresh_token"
    and "py_get oauth ''expiresAt'' JNull = Inr expires_at"
    and "expires_at = JNull
         \<or> (\<exists>e. expires_at = JInt e \<and> w_time_ms w (w_ticks w) + EXPIRY_BUFFER_MS \<ge> e)"
    and "w_httpx w \<or> w_requests w"
    and "w_token_endpoint w (w_log w @ [Resolve]) (refresh_payload refresh_token)
         = Resp 200 txt (Some (JObj body))"
    and "map_of body ''access_token'' = Some (JStr new_token)"
    and "new_token \<noteq> []"
    and "map_of body ''expires_in'' = None \<or> (\<exists>n. map_of body ''expires_in'' = Some (JInt n))"
    and "map_of body ''scope'' = None \<or> (\<exists>s. map_of body ''scope'' = Some (JStr s))"
  shows "\<exists>w' data' oauth'.
           get_claude_code_token w = (Inr (JStr new_token), w')
         \<and> w_log w' = w_log w @ [Resolve, TokenPost (refresh_payload refresh_token)]
                       @ (if w_system w = Darwin
                          then (if w_kc_delete w = ProcRaises then [KeychainDelete]
                                else [KeychainDelete, KeychainAdd data'])
                          else [FileWrite data'])
         \<and> (w_system w \<noteq> Darwin \<and> w_file_write_ok w \<longrightarrow> w_file w' = Doc data')
         \<and> (w_system w = Darwin \<and> w_kc_delete w \<noteq> ProcRaises \<and> w_kc_add w = ProcOk
              \<longrightarrow> w_keychain w' = Doc data')
         \<and> py_item data' ''claudeAiOauth'' = Inr (JObj oauth')
         \<and> map_of oauth' ''accessToken'' = Some (JStr new_token)
         \<and> map_of oauth' ''expiresAt''
             = Some (JInt (w_time_ms w (if expires_at = JNull then w_ticks w else Suc (w_ticks w))
                           + (case map_of body ''expires_in'' of Some (JInt n) \<Rightarrow> n | _ \<Rightarrow> 3600) * 1000))
         \<and> map_of oauth' ''refreshToken''
             = Some (case map_of body ''refresh_token'' of None \<Rightarrow> refresh_token | Some r \<Rightarrow> r)
         \<and> (\<forall>s. map_of body ''scope'' = Some (JStr s)
                \<longrightarrow> map_of oauth' ''scopes'' = Some (JArr (map JStr (py_split s))))"
proof -
  obtain st where r: "(w_system w = Darwin \<and> w_user w \<noteq> None \<and> w_keychain w = Doc data \<and> st = ''keychain'')
         \<or> ((w_system w = Linux \<or> w_system w = Windows) \<and> w_home w \<and> w_file w = Doc data \<and> st = ''file'')"
    using assms(1) by blast
  obtain dkvs where d: "data = JObj dkvs" using assms(2) py_get_obj by blast
  obtain okvs where o: "oauth = JObj okvs" using assms(3) py_get_obj by blast
  let ?w = "record_event Resolve w"
  define w1 where "w1 = record_event (TokenPost (refresh_payload refresh_token)) (after_check expires_at ?w)"
  define now where "now = w_time_ms ?w (w_ticks w1)"
  define secs where "secs = (case map_of body ''expires_in'' of Some (JInt n) \<Rightarrow> n | _ \<Rightarrow> 3600)"
  define new_access where "new_access = (case map_of body ''access_token'' of None \<Rightarrow> JNull | Some v \<Rightarrow> v)"
  define o3 where "o3 = dict_set (dict_set (dict_set okvs ''accessToken'' new_access)
                 ''refreshToken'' (case map_of body ''refresh_token'' of None \<Rightarrow> refresh_token | Some v \<Rightarrow> v))
                 ''expiresAt'' (JInt (now + secs * 1000))"
  define o4 where "o4 = (case map_of body ''scope'' of
                  Some (JStr s) \<Rightarrow> dict_set o3 ''scopes'' (JArr (map JStr (py_split s)))
                | _ \<Rightarrow> o3)"
  define data' where "data' = JObj (dict_set dkvs ''claudeAiOauth'' (JObj o4))"
  define w2 where "w2 = w1\<lparr>w_ticks := Suc (w_ticks w1)\<rparr>"
  have t: "expires_at = JNull
         \<or> (\<exists>e. expires_at = JInt e \<and> w_time_ms ?w (w_ticks ?w) + EXPIRY_BUFFER_MS \<ge> e)"
    using assms(6) by (simp add: record_event_def)
  have lib: "w_httpx ?w \<or> w_requests ?w"
    using assms(7) by (simp add: record_event_def)
  have ans: "w_token_endpoint ?w (w_log ?w) (refresh_payload refresh_token) = Resp 200 txt (Some (JObj body))"
    using assms(8) by (simp add: record_event_def)
  have ne: "body \<noteq> []" using assms(9) by auto
  have na: "new_access = JStr new_token" by (simp add: new_access_def assms(9))
  have ex: "extract_token data st ?w =
            bind (if st = ''keychain'' then save_credentials_to_keychain data'
                  else save_credentials_to_file data')
              (\<lambda>saved. use_token (JStr new_token)) w2"
    unfolding d w2_def na[symmetric]
    by (rule extract_refreshed[OF assms(2,3)[unfolded d o] assms(4) assms(5)[unfolded o] t lib ans ne
          assms(11,12) w1_def now_def secs_def new_access_def o3_def o4_def data'_def])
  have w2_log: "w_log w2 = w_log w @ [Resolve, TokenPost (refresh_payload refresh_token)]"
    by (simp add: w2_def w1_def record_event_def after_check_def)
  have w2_same: "w_user w2 = w_user w" "w_home w2 = w_home w" "w_file_write_ok w2 = w_file_write_ok w"
    "w_kc_delete w2 = w_kc_delete w" "w_kc_add w2 = w_kc_add w"
    by (simp_all add: w2_def w1_def record_event_def after_check_def)
  have now_eq: "now = w_time_ms w (if expires_at = JNull then w_ticks w else Suc (w_ticks w))"
    by (simp add: now_def w1_def record_event_def after_check_def)
  have tok: "truthy (JStr new_token)" using assms(10) by simp
  have fields: "map_of o4 ''accessToken'' = Some (JStr new_token)"
    "map_of o4 ''refreshToken'' = Some (case map_of body ''refresh_token'' of None \<Rightarrow> refresh_token | Some r \<Rightarrow> r)"
    "map_of o4 ''expiresAt'' = Some (JInt (now + secs * 1000))"
    "\<forall>s. map_of body ''scope'' = Some (JStr s) \<longrightarrow> map_of o4 ''scopes'' = Some (JArr (map JStr (py_split s)))"
    using refreshed_fields[OF o3_def o4_def assms(12)] unfolding na by blast+
  have item: "py_item data' ''claudeAiOauth'' = Inr (JObj o4)"
    by (simp add: data'_def map_of_dict_set)
  from r show ?thesis
  proof
    assume k: "w_system w = Darwin \<and> w_user w \<noteq> None \<and> w_keychain w = Doc data \<and> st = ''keychain''"
    then have u: "w_user w2 \<noteq> None" by (simp add: w2_same)
    have st: "st = ''keychain''" using k by simp
    have e: "extract_token data st ?w =
             (Inr (JStr new_token), snd (save_credentials_to_keychain data' w2))"
      unfolding ex by (simp add: st bind_def save_keychain_result[OF u] use_token_true[OF tok])
    have "get_claude_code_token w = (Inr (JStr new_token), snd (save_credentials_to_keychain data' w2))"
      by (simp add: resolve_reads[OF r] catch_def e)
    then show ?thesis
      using k fields item
      by (intro exI[of _ "snd (save_credentials_to_keychain data' w2)"] exI[of _ data'] exI[of _ o4])
         (simp add: save_keychain_result[OF u] w2_log w2_same now_eq secs_def)
  next
    assume f: "(w_system w = Linux \<or> w_system w = Windows) \<and> w_home w \<and> w_file w = Doc data \<and> st = ''file''"
    then have h: "w_home w2" by (simp add: w2_same)
    have nd: "w_system w \<noteq> Darwin" using f by auto
    have st: "st = ''file''" using f by simp
    have e: "extract_token data st ?w =
             (Inr (JStr new_token), snd (save_credentials_to_file data' w2))"
      unfolding ex by (simp add: st bind_def save_file_result[OF h] use_token_true[OF tok])
    have "get_claude_code_token w = (Inr (JStr new_token), snd (save_credentials_to_file data' w2))"
      by (simp add: resolve_reads[OF r] catch_def e)
    then show ?thesis
      using nd fields item
      by (intro exI[of _ "snd (save_credentials_to_file data' w2)"] exI[of _ data'] exI[of _ o4])
         (simp add: save_file_result[OF h] w2_log w2_same now_eq secs_def)
  qed
qed

lemmas auth_defs =
  get_claude_code_token_def get_token_from_keychain_def get_token_from_credentials_file_def
  extract_token_def apply_refresh_def is_token_expired_def current_time_ms_def use_token_def
  auth_refresh_token_def refresh_token_with_httpx_def refresh_token_with_requests_def
  save_credentials_to_file_def save_credentials_to_keychain_def record_event_def
  ret_def raise_def lift_def bind_def catch_def EXPIRY_BUFFER_MS_def Let_def

text \<open>A refresh on Linux whose answer has a new token, 7200 seconds and two scopes.\<close>

theorem refresh_success_updates_credentials_witness:
  "fst (get_claude_code_token
     (sample_world Linux (sample_credentials (JStr ''token-A'') (JStr ''refresh-A'') (JInt 1700000200000))
        (Resp 200 ''ok'' (Some (JObj [(''access_token'', JStr ''token-B''), (''expires_in'', JInt 7200),
                                      (''scope'', JStr ''user:inference  user:profile'')]))) []))
   = Inr (JStr ''token-B'')
   \<and> w_file (snd (get_claude_code_token
     (sample_world Linux (sample_credentials (JStr ''token-A'') (JStr ''refresh-A'') (JInt 1700000200000))
        (Resp 200 ''ok'' (Some (JObj [(''access_token'', JStr ''token-B''), (''expires_in'', JInt 7200),
                                      (''scope'', JStr ''user:inference  user:profile'')]))) [])))
   = Doc (JObj [(''claudeAiOauth'',
                 JObj [(''accessToken'', JStr ''token-B''),
                       (''refreshToken'', JStr ''refresh-A''),
                       (''expiresAt'', JInt 1700007201000),
                       (''scopes'', JArr [JStr ''user:inference'', JStr ''user:profile''])])])"
  using refresh_success_updates_credentials
    [of "sample_world Linux (sample_credentials (JStr ''token-A'') (JStr ''refresh-A'') (JInt 1700000200000))
        (Resp 200 ''ok'' (Some (JObj [(''access_token'', JStr ''token-B''), (''expires_in'', JInt 7200),
                                      (''scope'', JStr ''user:inference  user:profile'')]))) []"
        "sample_credentials (JStr ''token-A'') (JStr ''refresh-A'') (JInt 1700000200000)"
        "JObj [(''accessToken'', JStr ''token-A''), (''refreshToken'', JStr ''refresh-A''),
               (''expiresAt'', JInt 1700000200000), (''scopes'', JArr [JStr ''user:inference''])]"
        "JStr ''refresh-A''" "JInt 1700000200000" "''ok''"
        "[(''access_token'', JStr ''token-B''), (''expires_in'', JInt 7200),
          (''scope'', JStr ''user:inference  user:profile'')]"
        "''token-B''"]
  by (simp add: sample_world_def sample_credentials_def auth_defs py_split_def is_space_def)

text \<open>
  C3 as stated fails when the answer contains \<open>access_token\<close> with the empty string: the
  resolution gives no token, not the new access token.
\<close>

theorem empty_access_token_counterexample:
  "map_of [(''access_token'', JStr [])] ''access_token'' = Some (JStr [])
   \<and> fst (get_claude_code_token
     (sample_world Linux (sample_credentials (JStr ''token-A'') (JStr ''refresh-A'') (JInt 1700000200000))
        (Resp 200 ''ok'' (Some (JObj [(''access_token'', JStr [])]))) []))
   = Inr JNull"
  by (simp add: sample_world_def sample_credentials_def auth_defs)

text \<open>
  C5, amended. The credential is expired and has a refresh token, the token endpoint
  answers 200 with a non-empty JSON object that has no \<open>access_token\<close> (\<open>expires_in\<close>
  an integer and \<open>scope\<close> a string when present), and the storage variant can be
  addressed. Then \<open>_extract_token\<close> returns \<open>None\<close> and all the same hands a document to
  the store in which \<open>accessToken\<close> is \<open>null\<close> and \<open>expiresAt\<close> is the clock reading
  plus \<open>expires_in * 1000\<close>; the store holds it when the write succeeds.
\<close>

theorem refresh_without_access_token_overwrites_store:
  assumes "py_get data ''claudeAiOauth'' (JObj []) = Inr oauth"
    and "py_get oauth ''refreshToken'' JNull = Inr refresh_token"
    and "truthy refresh_token"
    and "py_get oauth ''expiresAt'' JNull = Inr expires_at"
    and "expires_at = JNull
         \<or> (\<exists>e. expires_at = JInt e \<and> w_time_ms w (w_ticks w) + EXPIRY_BUFFER_MS \<ge> e)"
    and "w_httpx w \<or> w_requests w"
    and "w_token_endpoint w (w_log w) (refresh_payload refresh_token)
         = Resp 200 txt (Some (JObj body))"
    and "body \<noteq> []"
    and "map_of body ''access_token'' = None"
    and "map_of body ''expires_in'' = None \<or> (\<exists>n. map_of body ''expires_in'' = Some (JInt n))"
    and "map_of body ''scope'' = None \<or> (\<exists>s. map_of body ''scope'' = Some (JStr s))"
    and "(storage_type = ''keychain'' \<and> w_user w \<noteq> None)
         \<or> (storage_type \<noteq> ''keychain'' \<and> w_home w)"
  shows "\<exists>w' data' oauth'.
           extract_token data storage_type w = (Inr JNull, w')
         \<and> w_log w' = w_log w @ [TokenPost (refresh_payload refresh_token)]
                       @ (if storage_type = ''keychain''
                          then (if w_kc_delete w = ProcRaises then [KeychainDelete]
                                else [KeychainDelete, KeychainAdd data'])
                          else [FileWrite data'])
         \<and> (storage_type \<noteq> ''keychain'' \<and> w_file_write_ok w \<longrightarrow> w_file w' = Doc data')
         \<and> (storage_type = ''keychain'' \<and> w_kc_delete w \<noteq> ProcRaises \<and> w_kc_add w = ProcOk
              \<longrightarrow> w_keychain w' = Doc data')
         \<and> py_item data' ''claudeAiOauth'' = Inr (JObj oauth')
         \<and> map_of oauth' ''accessToken'' = Some JNull
         \<and> map_of oauth' ''expiresAt''
             = Some (JInt (w_time_ms w (if expires_at = JNull then w_ticks w else Suc (w_ticks w))
                           + (case map_of body ''expires_in'' of Some (JInt n) \<Rightarrow> n | _ \<Rightarrow> 3600) * 1000))"
proof -
  obtain dkvs where d: "data = JObj dkvs" using assms(1) py_get_obj by blast
  obtain okvs where o: "oauth = JObj okvs" using assms(2) py_get_obj by blast
  define w1 where "w1 = record_event (TokenPost (refresh_payload refresh_token)) (after_check expires_at w)"
  define now where "now = w_time_ms w (w_ticks w1)"
  define secs where "secs = (case map_of body ''expires_in'' of Some (JInt n) \<Rightarrow> n | _ \<Rightarrow> 3600)"
  define new_access where "new_access = (case map_of body ''access_token'' of None \<Rightarrow> JNull | Some v \<Rightarrow> v)"
  define o3 where "o3 = dict_set (dict_set (dict_set okvs ''accessToken'' new_access)
                 ''refreshToken'' (case map_of body ''refresh_token'' of None \<Rightarrow> refresh_token | Some v \<Rightarrow> v))
                 ''expiresAt'' (JInt (now + secs * 1000))"
  define o4 where "o4 = (case map_of body ''scope'' of
                  Some (JStr s) \<Rightarrow> dict_set o3 ''scopes'' (JArr (map JStr (py_split s)))
                | _ \<Rightarrow> o3)"
  define data' where "data' = JObj (dict_set dkvs ''claudeAiOauth'' (JObj o4))"
  define w2 where "w2 = w1\<lparr>w_ticks := Suc (w_ticks w1)\<rparr>"
  have na: "new_access = JNull" by (simp add: new_access_def assms(9))
  have ex: "extract_token data storage_type w =
            bind (if storage_type = ''keychain'' then save_credentials_to_keychain data'
                  else save_credentials_to_file data')
              (\<lambda>saved. use_token JNull) w2"
    unfolding d w2_def na[symmetric]
    by (rule extract_refreshed[OF assms(1,2)[unfolded d o] assms(3) assms(4)[unfolded o] assms(5-8)
          assms(10,11) w1_def now_def secs_def new_access_def o3_def o4_def data'_def])
  have w2_log: "w_log w2 = w_log w @ [TokenPost (refresh_payload refresh_token)]"
    by (simp add: w2_def w1_def record_event_def after_check_def)
  have w2_same: "w_user w2 = w_user w" "w_home w2 = w_home w" "w_file_write_ok w2 = w_file_write_ok w"
    "w_kc_delete w2 = w_kc_delete w" "w_kc_add w2 = w_kc_add w"
    by (simp_all add: w2_def w1_def record_event_def after_check_def)
  have now_eq: "now = w_time_ms w (if expires_at = JNull then w_ticks w else Suc (w_ticks w))"
    by (simp add: now_def w1_def record_event_def after_check_def)
  have tok: "\<not> truthy JNull" by simp
  have fields: "map_of o4 ''accessToken'' = Some JNull"
    "map_of o4 ''expiresAt'' = Some (JInt (now + secs * 1000))"
    using refreshed_fields(1,3)[OF o3_def o4_def assms(11)] unfolding na by blast+
  have item: "py_item data' ''claudeAiOauth'' = Inr (JObj o4)"
    by (simp add: data'_def map_of_dict_set)
  from assms(12) show ?thesis
  proof
    assume k: "storage_type = ''keychain'' \<and> w_user w \<noteq> None"
    then have u: "w_user w2 \<noteq> None" by (simp add: w2_same)
    have st: "storage_type = ''keychain''" using k by simp
    have e: "extract_token data storage_type w =
             (Inr JNull, snd (save_credentials_to_keychain data' w2))"
      unfolding ex by (simp add: st bind_def save_keychain_result[OF u] use_token_false[OF tok])
    then show ?thesis
      using k fields item
      by (intro exI[of _ "snd (save_credentials_to_keychain data' w2)"] exI[of _ data'] exI[of _ o4])
         (simp add: save_keychain_result[OF u] w2_log w2_same now_eq secs_def)
  next
    assume f: "storage_type \<noteq> ''keychain'' \<and> w_home w"
    then have h: "w_home w2" by (simp add: w2_same)
    have st: "storage_type \<noteq> ''keychain''" using f by simp
    have e: "extract_token data storage_type w =
             (Inr JNull, snd (save_credentials_to_file data' w2))"
      unfolding ex by (simp add: st bind_def save_file_result[OF h] use_token_false[OF tok])
    then show ?thesis
      using f fields item
      by (intro exI[of _ "snd (save_credentials_to_file data' w2)"] exI[of _ data'] exI[of _ o4])
         (simp add: save_file_result[OF h] w2_log w2_same now_eq secs_def)
  qed
qed

text \<open>An answer that has only \<open>expires_in\<close>: the file loses its access token.\<close>

theorem refresh_without_access_token_overwrites_store_witness:
  "fst (extract_token (sample_credentials (JStr ''token-A'') (JStr ''refresh-A'') (JInt 1700000200000)) ''file''
     (sample_world Linux (sample_credentials (JStr ''token-A'') (JStr ''refresh-A'') (JInt 1700000200000))
        (Resp 200 ''ok'' (Some (JObj [(''expires_in'', JInt 60)]))) []))
   = Inr JNull
   \<and> w_file (snd (extract_token (sample_credentials (JStr ''token-A'') (JStr ''refresh-A'') (JInt 1700000200000)) ''file''
     (sample_world Linux (sample_credentials (JStr ''token-A'') (JStr ''refresh-A'') (JInt 1700000200000))
        (Resp 200 ''ok'' (Some (JObj [(''expires_in'', JInt 60)]))) [])))
   = Doc (JObj [(''claudeAiOauth'',
                 JObj [(''accessToken'', JNull),
                       (''refreshToken'', JStr ''refresh-A''),
                       (''expiresAt'', JInt 1700000061000),
                       (''scopes'', JArr [JStr ''user:inference''])])])"
  using refresh_without_access_token_overwrites_store
    [of "sample_credentials (JStr ''token-A'') (JStr ''refresh-A'') (JInt 1700000200000)"
        "JObj [(''accessToken'', JStr ''token-A''), (''refreshToken'', JStr ''refresh-A''),
               (''expiresAt'', JInt 1700000200000), (''scopes'', JArr [JStr ''user:inference''])]"
        "JStr ''refresh-A''" "JInt 1700000200000"
        "sample_world Linux (sample_credentials (JStr ''token-A'') (JStr ''refresh-A'') (JInt 1700000200000))
           (Resp 200 ''ok'' (Some (JObj [(''expires_in'', JInt 60)]))) []"
        "''ok''" "[(''expires_in'', JInt 60)]" "''file''"]
  by (simp add: sample_world_def sample_credentials_def auth_defs)

text \<open>
  C5 as stated fails when the answer is the empty object, which lacks \<open>access_token\<close> as
  well: it is a false value, the refresh counts as failed, and nothing is written.
\<close>

theorem empty_refresh_body_counterexample:
  "py_contains (JObj []) ''access_token'' = Inr False
   \<and> fst (extract_token (sample_credentials (JStr ''token-A'') (JStr ''refresh-A'') (JInt 1700000200000)) ''file''
     (sample_world Linux (sample_credentials (JStr ''token-A'') (JStr ''refresh-A'') (JInt 1700000200000))
        (Resp 200 ''{}'' (Some (JObj []))) []))
   = Inr JNull
   \<and> w_file (snd (extract_token (sample_credentials (JStr ''token-A'') (JStr ''refresh-A'') (JInt 1700000200000)) ''file''
     (sample_world Linux (sample_credentials (JStr ''token-A'') (JStr ''refresh-A'') (JInt 1700000200000))
        (Resp 200 ''{}'' (Some (JObj []))) [])))
   = Doc (sample_credentials (JStr ''token-A'') (JStr ''refresh-A'') (JInt 1700000200000))
   \<and> w_log (snd (extract_token (sample_credentials (JStr ''token-A'') (JStr ''refresh-A'') (JInt 1700000200000)) ''file''
     (sample_world Linux (sample_credentials (JStr ''token-A'') (JStr ''refresh-A'') (JInt 1700000200000))
        (Resp 200 ''{}'' (Some (JObj []))) [])))
   = [TokenPost (refresh_payload (JStr ''refresh-A''))]"
  by (simp add: sample_world_def sample_credentials_def auth_defs)


section \<open>Properties of the translation\<close>

lemma bind_exn_Inr: "bind_exn m f = Inr y \<longleftrightarrow> (\<exists>x. m = Inr x \<and> f x = Inr y)"
  by (cases m) (auto simp: bind_exn_def)

lemma bind_exn_simps [simp]: "bind_exn (Inr x) f = f x" "bind_exn (Inl e) f = Inl e"
  by (simp_all add: bind_exn_def)

lemma convert_message_system:
  assumes "convert_message rt msg = Inr (sys, out)"
  shows "sys = system_text_spec msg"
proof (cases msg)
  case (JObj kvs)
  show ?thesis
  proof (cases "map_of kvs ''role''")
    case None
    then show ?thesis using assms JObj by (simp add: convert_message_def)
  next
    case (Some role)
    then show ?thesis using assms JObj
      by (auto simp: convert_message_def system_text_spec_def bind_exn_Inr
          split: if_splits option.splits json.splits)
  qed
qed (use assms in \<open>simp_all add: convert_message_def\<close>)

lemma convert_messages_system:
  "convert_messages rt messages = Inr (parts, out) \<Longrightarrow> parts = system_texts_spec messages"
proof (induction messages arbitrary: parts out)
  case Nil
  then show ?case by (simp add: system_texts_spec_def)
next
  case (Cons msg rest)
  obtain sys o1 where m: "convert_message rt msg = Inr (sys, o1)"
    using Cons.prems by (cases "convert_message rt msg") auto
  obtain syss o2 where r: "convert_messages rt rest = Inr (syss, o2)"
    using Cons.prems m by (cases "convert_messages rt rest") auto
  have "parts = sys @ syss" using Cons.prems m r by simp
  then show ?case
    using convert_message_system[OF m] Cons.IH[OF r] by (simp add: system_texts_spec_def)
qed

text \<open>
  C6, amended. Whenever \<open>_build_body\<close> returns a request, its \<open>system\<close> list is the fixed
  identification block followed by one text block for each system-role message whose content
  is a string, in their order and never joined. A system-role message whose content is not a
  string adds no block.
\<close>

theorem system_blocks_follow_the_prefix:
  assumes "build_body rt messages tools model max_tokens temperature = Inr body"
  shows "py_item body ''system''
         = Inr (JArr (text_block CLAUDE_CODE_SYSTEM_PREFIX
                      # map text_block (system_texts_spec messages)))"
proof -
  obtain parts out where c: "convert_messages rt messages = Inr (parts, out)"
    using assms by (cases "convert_messages rt messages") (auto simp: build_body_def)
  have p: "parts = system_texts_spec messages" using convert_messages_system[OF c] .
  show ?thesis
    using assms
    by (auto simp: build_body_def c p Let_def map_of_dict_set bind_exn_Inr
        split: option.splits if_splits)
qed

text \<open>The two system messages of the scenario give exactly three blocks.\<close>

theorem system_blocks_follow_the_prefix_witness:
  "build_body sample_runtime [system_message ''Be concise.'', system_message ''Use metric units.'']
     None ''claude-sonnet-4-5'' 4096 (JInt 1)
   = Inr (JObj [(''model'', JStr ''claude-sonnet-4-5''),
                (''max_tokens'', JInt 4096),
                (''temperature'', JInt 1),
                (''system'', JArr [text_block CLAUDE_CODE_SYSTEM_PREFIX,
                                   text_block ''Be concise.'',
                                   text_block ''Use metric units.'']),
                (''messages'', JArr [])])
   \<and> py_item (JObj [(''model'', JStr ''claude-sonnet-4-5''),
                (''max_tokens'', JInt 4096),
                (''temperature'', JInt 1),
                (''system'', JArr [text_block CLAUDE_CODE_SYSTEM_PREFIX,
                                   text_block ''Be concise.'',
                                   text_block ''Use metric units.'']),
                (''messages'', JArr [])]) ''system''
     = Inr (JArr (text_block CLAUDE_CODE_SYSTEM_PREFIX
                  # map text_block (system_texts_spec
                      [system_message ''Be concise.'', system_message ''Use metric units.''])))"
proof -
  have b: "build_body sample_runtime [system_message ''Be concise.'', system_message ''Use metric units.'']
     None ''claude-sonnet-4-5'' 4096 (JInt 1)
   = Inr (JObj [(''model'', JStr ''claude-sonnet-4-5''),
                (''max_tokens'', JInt 4096),
                (''temperature'', JInt 1),
                (''system'', JArr [text_block CLAUDE_CODE_SYSTEM_PREFIX,
                                   text_block ''Be concise.'',
                                   text_block ''Use metric units.'']),
                (''messages'', JArr [])])"
    by (simp add: build_body_def convert_message_def system_message_def)
  show ?thesis
    using b system_blocks_follow_the_prefix[OF b] by simp
qed

text \<open>
  C6 as stated fails for a system-role message whose content is a list of parts: the
  \<open>system\<close> list holds the identification block alone.
\<close>

theorem system_message_with_parts_counterexample:
  "build_body sample_runtime
     [JObj [(''role'', JStr ''system''),
            (''content'', JArr [JObj [(''type'', JStr ''text''), (''text'', JStr ''Be concise.'')]])]]
     None ''claude-sonnet-4-5'' 4096 (JInt 1)
   = Inr (JObj [(''model'', JStr ''claude-sonnet-4-5''),
                (''max_tokens'', JInt 4096),
                (''temperature'', JInt 1),
                (''system'', JArr [text_block CLAUDE_CODE_SYSTEM_PREFIX]),
                (''messages'', JArr [])])"
  by (simp add: build_body_def convert_message_def)






lemma rename_round_trip:
  assumes "name \<noteq> ''ReadFile''"
  shows "\<exists>api. rename_get TOOL_NAME_TO_API (JStr name) = Inr (JStr api)
             \<and> rename_get TOOL_NAME_FROM_API (JStr api) = Inr (JStr name)"
  using assms by (simp add: TOOL_NAME_TO_API_def TOOL_NAME_FROM_API_def)

lemma parse_response_blocks:
  assumes "parse_blocks blocks = Inr (txts, calls)"
    and "txts = [] \<or> (\<exists>t. txts = [JStr t])"
  shows "\<exists>r. parse_response (JObj [(''role'', JStr ''assistant''), (''content'', JArr blocks)]) = Inr r
            \<and> tool_calls r = calls"
  using assms
  by (auto simp: parse_response_def parse_usage_def finish_map_def)

text \<open>
  C7, amended. An assistant message with one tool call whose arguments are an object and
  whose name is any string other than \<open>ReadFile\<close> (its content absent, false or a string):
  converting it and parsing the converted message back as a response gives one tool-call
  request with the same id, the same name and the same arguments.
\<close>

theorem tool_call_round_trip:
  assumes "map_of kvs ''tool_calls'' = Some (JArr [tc])"
    and "py_item tc ''function'' = Inr f"
    and "py_item f ''arguments'' = Inr (JObj args)"
    and "py_item f ''name'' = Inr (JStr name)"
    and "name \<noteq> ''ReadFile''"
    and "py_item tc ''id'' = Inr call_id"
    and "map_of kvs ''content'' = None
         \<or> (\<exists>c. map_of kvs ''content'' = Some c \<and> (\<not> truthy c \<or> (\<exists>t. c = JStr t)))"
  shows "\<exists>wire r. convert_assistant_msg rt (JObj kvs) = Inr wire
                \<and> parse_response wire = Inr r
                \<and> tool_calls r = [\<lparr>tc_id = call_id, tc_name = JStr name, tc_arguments = JObj args\<rparr>]"
proof -
  obtain api where fwd: "rename_get TOOL_NAME_TO_API (JStr name) = Inr (JStr api)"
    and bwd: "rename_get TOOL_NAME_FROM_API (JStr api) = Inr (JStr name)"
    using rename_round_trip[OF assms(5)] by blast
  define block where "block = JObj [(''type'', JStr ''tool_use''), (''id'', call_id),
                                    (''name'', JStr api), (''input'', JObj args)]"
  define text_blocks where "text_blocks =
     (case map_of kvs ''content'' of
        None \<Rightarrow> []
      | Some c \<Rightarrow> if truthy c then [JObj [(''type'', JStr ''text''), (''text'', c)]] else [])"
  have call: "convert_tool_call rt tc = Inr block"
    using assms(2,3,4,6) fwd by (simp add: convert_tool_call_def block_def)
  have conv: "convert_assistant_msg rt (JObj kvs) =
              Inr (JObj [(''role'', JStr ''assistant''), (''content'', JArr (text_blocks @ [block]))])"
    by (simp add: convert_assistant_msg_def assms(1) call text_blocks_def Let_def split: option.splits)
  have pb: "parse_block block =
            Inr ([], [\<lparr>tc_id = call_id, tc_name = JStr name, tc_arguments = JObj args\<rparr>])"
    using bwd by (simp add: parse_block_def block_def)
  have "\<exists>txts. parse_blocks (text_blocks @ [block]) =
                Inr (txts, [\<lparr>tc_id = call_id, tc_name = JStr name, tc_arguments = JObj args\<rparr>])
              \<and> (txts = [] \<or> (\<exists>t. txts = [JStr t]))"
    using assms(7) pb by (auto simp: text_blocks_def parse_block_def)
  then obtain txts where
    "parse_blocks (text_blocks @ [block]) =
       Inr (txts, [\<lparr>tc_id = call_id, tc_name = JStr name, tc_arguments = JObj args\<rparr>])"
    and "txts = [] \<or> (\<exists>t. txts = [JStr t])"
    by blast
  from parse_response_blocks[OF this] conv show ?thesis by auto
qed

text \<open>The tool \<open>read_file\<close> with the arguments \<open>{"x":1}\<close>.\<close>

theorem tool_call_round_trip_witness:
  "bind_exn (convert_assistant_msg sample_runtime
       (JObj [(''role'', JStr ''assistant''),
              (''content'', JStr ''Reading.''),
              (''tool_calls'',
               JArr [JObj [(''id'', JStr ''call_1''),
                           (''type'', JStr ''function''),
                           (''function'', JObj [(''name'', JStr ''read_file''),
                                                (''arguments'', JObj [(''x'', JInt 1)])])]])]))
     (\<lambda>wire. bind_exn (parse_response wire) (\<lambda>r. Inr (tool_calls r)))
   = Inr [\<lparr>tc_id = JStr ''call_1'', tc_name = JStr ''read_file'',
           tc_arguments = JObj [(''x'', JInt 1)]\<rparr>]"
  using tool_call_round_trip
    [of "[(''role'', JStr ''assistant''),
          (''content'', JStr ''Reading.''),
          (''tool_calls'',
           JArr [JObj [(''id'', JStr ''call_1''),
                       (''type'', JStr ''function''),
                       (''function'', JObj [(''name'', JStr ''read_file''),
                                            (''arguments'', JObj [(''x'', JInt 1)])])]])]"
        "JObj [(''id'', JStr ''call_1''),
               (''type'', JStr ''function''),
               (''function'', JObj [(''name'', JStr ''read_file''),
                                    (''arguments'', JObj [(''x'', JInt 1)])])]"
        "JObj [(''name'', JStr ''read_file''), (''arguments'', JObj [(''x'', JInt 1)])]"
        "[(''x'', JInt 1)]" "''read_file''" "JStr ''call_1''" sample_runtime]
  by auto

text \<open>
  C7 as stated fails for a tool named \<open>ReadFile\<close>: the forward map leaves the name as it
  is, the backward map turns it into \<open>read_file\<close>.
\<close>

theorem tool_named_ReadFile_counterexample:
  "bind_exn (convert_assistant_msg sample_runtime
       (JObj [(''role'', JStr ''assistant''),
              (''content'', JNull),
              (''tool_calls'',
               JArr [JObj [(''id'', JStr ''call_1''),
                           (''type'', JStr ''function''),
                           (''function'', JObj [(''name'', JStr ''ReadFile''),
                                                (''arguments'', JObj [(''x'', JInt 1)])])]])]))
     (\<lambda>wire. bind_exn (parse_response wire) (\<lambda>r. Inr (tool_calls r)))
   = Inr [\<lparr>tc_id = JStr ''call_1'', tc_name = JStr ''read_file'',
           tc_arguments = JObj [(''x'', JInt 1)]\<rparr>]"
  by (simp add: convert_assistant_msg_def convert_tool_call_def parse_response_def
      parse_block_def parse_usage_def finish_map_def TOOL_NAME_TO_API_def TOOL_NAME_FROM_API_def)


section \<open>Properties of the request\<close>

lemma extends_ret: "extends_log (ret x)"
  by (simp add: extends_log_def ret_def)

lemma extends_lift: "extends_log (lift r)"
  by (simp add: extends_log_def lift_def)

lemma extends_bind:
  assumes "extends_log m" and "\<And>x. extends_log (f x)"
  shows "extends_log (bind m f)"
  unfolding extends_log_def
proof
  fix w
  obtain r w1 where m: "m w = (r, w1)" by (cases "m w")
  obtain e1 where e1: "w_log w1 = w_log w @ e1" "list_all auth_event e1"
    using assms(1) m unfolding extends_log_def by (metis snd_conv)
  show "\<exists>evs. w_log (snd (bind m f w)) = w_log w @ evs \<and> list_all auth_event evs"
  proof (cases r)
    case (Inl e)
    then show ?thesis using m e1 by (simp add: bind_def)
  next
    case (Inr x)
    obtain e2 where e2: "w_log (snd (f x w1)) = w_log w1 @ e2" "list_all auth_event e2"
      using assms(2)[of x] unfolding extends_log_def by blast
    show ?thesis using m Inr e1 e2 by (simp add: bind_def)
  qed
qed

lemma extends_if:
  "extends_log a \<Longrightarrow> extends_log b \<Longrightarrow> extends_log (if c then a else b)"
  by simp

lemma extends_catch:
  assumes "extends_log m"
  shows "extends_log (catch m v)"
  unfolding extends_log_def
proof
  fix w
  have "snd (catch m v w) = snd (m w)"
    by (simp add: catch_def split: prod.splits sum.splits)
  then show "\<exists>evs. w_log (snd (catch m v w)) = w_log w @ evs \<and> list_all auth_event evs"
    using assms unfolding extends_log_def by simp
qed

lemma extends_clock: "extends_log current_time_ms"
  by (simp add: extends_log_def current_time_ms_def)

lemma extends_expired: "extends_log (is_token_expired x)"
  unfolding is_token_expired_def
  by (intro extends_if extends_ret extends_bind extends_clock extends_lift)

lemma extends_use_token: "extends_log (use_token t)"
  by (simp add: use_token_def extends_ret)

lemma extends_refresh: "extends_log (auth_refresh_token rt)"
  by (auto simp: extends_log_def auth_refresh_token_def refresh_token_with_httpx_def
      refresh_token_with_requests_def record_event_def Let_def split: http_outcome.splits option.splits)

lemma extends_save_file: "extends_log (save_credentials_to_file d)"
  by (auto simp: extends_log_def save_credentials_to_file_def record_event_def Let_def)

lemma extends_save_keychain: "extends_log (save_credentials_to_keychain d)"
  by (auto simp: extends_log_def save_credentials_to_keychain_def record_event_def Let_def
      split: option.splits)

lemma extends_apply_refresh: "extends_log (apply_refresh d oa rt nd st)"
  unfolding apply_refresh_def
  by (intro extends_if extends_ret extends_bind extends_clock extends_lift
      extends_save_file extends_save_keychain extends_use_token)

lemma extends_extract: "extends_log (extract_token d st)"
  unfolding extract_token_def
  by (intro extends_if extends_ret extends_bind extends_expired extends_lift
      extends_refresh extends_apply_refresh extends_use_token)

lemma resolve_log:
  assumes "get_claude_code_token w = (r, w2)"
  shows "\<exists>evs. w_log w2 = w_log w @ Resolve # evs \<and> list_all auth_event evs"
proof -
  let ?w = "record_event Resolve w"
  have l: "w_log ?w = w_log w @ [Resolve]" by (simp add: record_event_def)
  have c: "\<And>d st. \<exists>evs. w_log (snd (catch (extract_token d st) JNull ?w)) = w_log ?w @ evs
                          \<and> list_all auth_event evs"
    using extends_catch[OF extends_extract] unfolding extends_log_def by blast
  have "\<exists>evs. w_log (snd (get_claude_code_token w)) = w_log ?w @ evs \<and> list_all auth_event evs"
    using c
    by (auto simp: get_claude_code_token_def get_token_from_keychain_def
        get_token_from_credentials_file_def Let_def
        split: platform.splits option.splits store.splits)
  then show ?thesis using assms l by auto
qed

lemma auth_events_filter:
  "list_all auth_event evs \<Longrightarrow> filter is_messages_post evs = [] \<and> count_list evs Resolve = 0"
proof (induction evs)
  case Nil
  then show ?case by simp
next
  case (Cons e evs)
  then show ?case by (cases e) auto
qed

lemma read_answer_not_200:
  "status \<noteq> 200 \<Longrightarrow> read_answer (status, txt, parsed) =
     Inr (error_response (''Error from Anthropic API ('' @ py_str_int status @ ''): '' @ take 500 txt))"
  by (simp add: read_answer_def)

lemma error_response_fields:
  "finish_reason (error_response m) = ''error''" "content (error_response m) = Some m"
  by (simp_all add: error_response_def)

text \<open>
  C2, amended. When the request body can be built from the input, \<open>chat\<close> returns a response
  and raises nothing. If the first request fails in transport, or is answered with a status
  other than 200 and 401, the response has the finish reason \<open>error\<close>; for such a status its
  text is \<open>Error from Anthropic API (<status>): \<close> followed by the first 500 characters of the
  answer's text. The same holds for the second request, for every status other than 200.
\<close>

theorem chat_turns_failures_into_error_responses:
  assumes "build_body rt messages tools
             (strip_provider_prefix
                (case model of None \<Rightarrow> default_model p
                 | Some m \<Rightarrow> if m = [] then default_model p else m))
             max_tokens temperature = Inr body"
  shows "\<exists>r p' w'.
           chat rt p messages tools model max_tokens temperature w = (Inr r, p', w')
         \<and> (w_messages_endpoint w (w_log w) (oauth_token p) body = Failed
              \<longrightarrow> finish_reason r = ''error''
                \<and> content r = Some (''Error calling Anthropic API: '' @ exn_str rt TransportError))
         \<and> (\<forall>status txt parsed.
               w_messages_endpoint w (w_log w) (oauth_token p) body = Resp status txt parsed
               \<and> status \<noteq> 200 \<and> status \<noteq> 401
              \<longrightarrow> finish_reason r = ''error''
                \<and> content r = Some (''Error from Anthropic API ('' @ py_str_int status @ ''): ''
                                     @ take 500 txt))
         \<and> (\<forall>txt parsed p2 w2.
               w_messages_endpoint w (w_log w) (oauth_token p) body = Resp 401 txt parsed
               \<and> provider_refresh_token p (record_event (MessagesPost (oauth_token p) body) w)
                   = (Inr True, p2, w2)
              \<longrightarrow> (w_messages_endpoint w2 (w_log w2) (oauth_token p2) body = Failed
                    \<longrightarrow> finish_reason r = ''error''
                      \<and> content r = Some (''Error calling Anthropic API: '' @ exn_str rt TransportError))
                \<and> (\<forall>status txt' parsed'.
                      w_messages_endpoint w2 (w_log w2) (oauth_token p2) body = Resp status txt' parsed'
                      \<and> status \<noteq> 200
                     \<longrightarrow> finish_reason r = ''error''
                       \<and> content r = Some (''Error from Anthropic API ('' @ py_str_int status @ ''): ''
                                            @ take 500 txt')))"
proof -
  let ?w1 = "record_event (MessagesPost (oauth_token p) body) w"
  have me: "\<And>ev v. w_messages_endpoint (record_event ev v) = w_messages_endpoint v"
    by (simp add: record_event_def)
  have lg: "\<And>ev v. w_log (record_event ev v) = w_log v @ [ev]"
    by (simp add: record_event_def)
  show ?thesis
  proof (cases "w_messages_endpoint w (w_log w) (oauth_token p) body")
    case Failed
    then show ?thesis
      using assms
      by (simp add: chat_def chat_try_def send_request_def Let_def error_response_fields)
  next
    case (Resp status btxt parsed)
    show ?thesis
    proof (cases "status = 401")
      case False
      then show ?thesis
        using assms Resp
        by (cases "status = 200")
           (auto simp: chat_def chat_try_def send_request_def Let_def error_response_fields
              read_answer_def split: sum.splits option.splits)
    next
      case True
      obtain rr p2 w2 where pr: "provider_refresh_token p ?w1 = (rr, p2, w2)"
        by (cases "provider_refresh_token p ?w1") auto
      show ?thesis
      proof (cases rr)
        case (Inl e)
        then show ?thesis
          using assms Resp True pr
          by (simp add: chat_def chat_try_def send_request_def Let_def error_response_fields)
      next
        case (Inr refreshed)
        show ?thesis
        proof (cases refreshed)
          case False
          then show ?thesis
            using assms Resp True pr Inr
            by (simp add: chat_def chat_try_def send_request_def Let_def error_response_fields
                read_answer_not_200)
        next
          case t: True
          show ?thesis
          proof (cases "w_messages_endpoint w2 (w_log w2) (oauth_token p2) body")
            case Failed
            then show ?thesis
              using assms Resp True pr Inr t
              by (simp add: chat_def chat_try_def send_request_def Let_def error_response_fields)
          next
            case r2: (Resp status2 txt2 parsed2)
            then show ?thesis
              using assms Resp True pr Inr t
              by (cases "status2 = 200")
                 (auto simp: chat_def chat_try_def send_request_def Let_def error_response_fields
                    read_answer_def split: sum.splits option.splits)
          qed
        qed
      qed
    qed
  qed
qed

lemma log_record_event: "w_log (record_event ev v) = w_log v @ [ev]"
  by (simp add: record_event_def)

lemma filter_posts_auth:
  "list_all auth_event evs \<Longrightarrow> filter is_messages_post evs = []"
  using auth_events_filter by blast

lemma count_resolve_auth:
  "list_all auth_event evs \<Longrightarrow> count_list evs Resolve = 0"
  using auth_events_filter by blast

lemma chat_result:
  assumes "chat rt p messages tools model max_tokens temperature w = (res, p', w')"
    and "build_body rt messages tools
             (strip_provider_prefix
                (case model of None \<Rightarrow> default_model p
                 | Some m \<Rightarrow> if m = [] then default_model p else m))
             max_tokens temperature = Inr body"
  shows "\<exists>r. res = Inr r"
  using assms by (auto simp: chat_def Let_def split: prod.splits sum.splits)

text \<open>
  C1. Whatever \<open>chat\<close> does, it adds at most two requests to the messages endpoint to the log.
  When the first request is answered with 401, the token is resolved exactly once; the
  request is sent a second time exactly when the resolved token is a true value different
  from the one just used, and then with that token; a second 401 gives a response with the
  finish reason \<open>error\<close>, and so does a 401 that is not retried.
\<close>

theorem unauthorized_request_is_retried_at_most_once:
  assumes "chat rt p messages tools model max_tokens temperature w = (res, p', w')"
  shows "\<exists>evs. w_log w' = w_log w @ evs
           \<and> length (filter is_messages_post evs) \<le> 2
           \<and> (\<forall>body txt parsed resolved w2.
                 build_body rt messages tools
                   (strip_provider_prefix
                      (case model of None \<Rightarrow> default_model p
                       | Some m \<Rightarrow> if m = [] then default_model p else m))
                   max_tokens temperature = Inr body
                 \<and> w_messages_endpoint w (w_log w) (oauth_token p) body = Resp 401 txt parsed
                 \<and> get_claude_code_token (record_event (MessagesPost (oauth_token p) body) w)
                     = (resolved, w2)
                \<longrightarrow> count_list evs Resolve = 1
                  \<and> (\<exists>r. res = Inr r
                       \<and> (if \<exists>t. resolved = Inr t \<and> truthy t \<and> \<not> py_eq t (oauth_token p)
                          then \<exists>t. resolved = Inr t
                                 \<and> filter is_messages_post evs
                                     = [MessagesPost (oauth_token p) body, MessagesPost t body]
                                 \<and> (\<forall>txt' parsed'.
                                       w_messages_endpoint w2 (w_log w2) t body = Resp 401 txt' parsed'
                                       \<longrightarrow> finish_reason r = ''error'')
                          else filter is_messages_post evs = [MessagesPost (oauth_token p) body]
                               \<and> finish_reason r = ''error'')))"
proof (cases "build_body rt messages tools
                   (strip_provider_prefix
                      (case model of None \<Rightarrow> default_model p
                       | Some m \<Rightarrow> if m = [] then default_model p else m))
                   max_tokens temperature")
  case (Inl e)
  then have "w' = w" using assms by (simp add: chat_def Let_def)
  then show ?thesis using Inl by (intro exI[of _ "[]"]) simp
next
  case (Inr body)
  let ?tok = "oauth_token p"
  let ?w1 = "record_event (MessagesPost ?tok body) w"
  have lg1: "w_log ?w1 = w_log w @ [MessagesPost ?tok body]"
    by (simp add: record_event_def)
  show ?thesis
  proof (cases "w_messages_endpoint w (w_log w) ?tok body")
    case Failed
    then have "w_log w' = w_log w @ [MessagesPost ?tok body]"
      using assms Inr by (auto simp: chat_def chat_try_def send_request_def Let_def log_record_event)
    then show ?thesis using Inr Failed by (intro exI[of _ "[MessagesPost ?tok body]"]) simp
  next
    case (Resp status btxt parsed)
    show ?thesis
    proof (cases "status = 401")
      case False
      then have "w_log w' = w_log w @ [MessagesPost ?tok body]"
        using assms Inr Resp
        by (auto simp: chat_def chat_try_def send_request_def Let_def log_record_event split: sum.splits)
      then show ?thesis using Inr Resp False by (intro exI[of _ "[MessagesPost ?tok body]"]) simp
    next
      case True
      obtain resolved w2 where g: "get_claude_code_token ?w1 = (resolved, w2)"
        by (cases "get_claude_code_token ?w1") auto
      obtain aevs where a: "w_log w2 = w_log ?w1 @ Resolve # aevs" "list_all auth_event aevs"
        using resolve_log[OF g] by blast
      have lg2: "w_log w2 = w_log w @ MessagesPost ?tok body # Resolve # aevs"
        using a(1) lg1 by simp
      note fa = filter_posts_auth[OF a(2)] count_resolve_auth[OF a(2)]
      show ?thesis
      proof (cases "\<exists>t. resolved = Inr t \<and> truthy t \<and> \<not> py_eq t ?tok")
        case retry: True
        then obtain t where t: "resolved = Inr t" "truthy t" "\<not> py_eq t ?tok" by blast
        let ?p2 = "p\<lparr>oauth_token := t, api_key := t\<rparr>"
        let ?w3 = "record_event (MessagesPost t body) w2"
        have pr: "provider_refresh_token p ?w1 = (Inr True, ?p2, w2)"
          using g t by (simp add: provider_refresh_token_def)
        have lg3: "w_log ?w3 = w_log w @ MessagesPost ?tok body # Resolve # aevs @ [MessagesPost t body]"
          using lg2 by (simp add: record_event_def)
        have w': "w' = ?w3"
          using assms Inr Resp True pr
          by (auto simp: chat_def chat_try_def send_request_def Let_def
              split: http_outcome.splits sum.splits)
        have r: "\<exists>r. res = Inr r \<and>
                 (\<forall>txt' parsed'. w_messages_endpoint w2 (w_log w2) t body = Resp 401 txt' parsed'
                     \<longrightarrow> finish_reason r = ''error'')"
        proof (cases "w_messages_endpoint w2 (w_log w2) t body")
          case Failed
          then show ?thesis
            using assms Inr Resp True pr
            by (auto simp: chat_def chat_try_def send_request_def Let_def)
        next
          case r2: (Resp status2 txt2 parsed2)
          show ?thesis
          proof (cases "status2 = 200")
            case True
            then show ?thesis
              using chat_result[OF assms Inr] r2 by auto
          next
            case False
            then show ?thesis
              using assms Inr Resp \<open>status = 401\<close> pr r2
              by (auto simp: chat_def chat_try_def send_request_def Let_def read_answer_not_200
                  error_response_fields)
          qed
        qed
        show ?thesis
          using Inr Resp True g t r fa
          by (intro exI[of _ "MessagesPost ?tok body # Resolve # aevs @ [MessagesPost t body]"])
             (auto simp: w' lg3)
      next
        case no_retry: False
        have pr: "(\<exists>e. provider_refresh_token p ?w1 = (Inl e, p, w2))
                  \<or> provider_refresh_token p ?w1 = (Inr False, p, w2)"
          using g no_retry by (cases resolved) (auto simp: provider_refresh_token_def)
        have w': "w' = w2"
          using assms Inr Resp True pr
          by (auto simp: chat_def chat_try_def send_request_def Let_def split: sum.splits)
        have r: "\<exists>r. res = Inr r \<and> finish_reason r = ''error''"
          using assms Inr Resp True pr
          by (auto simp: chat_def chat_try_def send_request_def Let_def read_answer_not_200
              error_response_fields)
        show ?thesis
          using Inr Resp True g no_retry r fa
          by (intro exI[of _ "MessagesPost ?tok body # Resolve # aevs"])
             (auto simp: w' lg2)
      qed
    qed
  qed
qed

lemmas chat_defs =
  chat_def chat_try_def send_request_def provider_refresh_token_def read_answer_def
  error_response_def build_body_def convert_message_def strip_provider_prefix_def
  init_provider_def py_eq_def py_str_int_def

lemma sample_body_built:
  "build_body sample_runtime [user_message ''hi''] None
     (strip_provider_prefix
        (case None of None \<Rightarrow> default_model sample_provider
         | Some m \<Rightarrow> if m = [] then default_model sample_provider else m))
     4096 (JInt 1) = Inr sample_body"
  by (simp add: chat_defs sample_provider_def user_message_def sample_body_def)

text \<open>An answer with status 500.\<close>

theorem chat_turns_failures_into_error_responses_witness:
  "map_sum id finish_reason
     (fst (chat sample_runtime sample_provider [user_message ''hi''] None None 4096 (JInt 1)
        (sample_world Linux (sample_credentials (JStr ''token-A'') JNull JNull) Failed
           [Resp 500 ''overloaded'' None])))
   = Inr ''error''
   \<and> map_sum id content
     (fst (chat sample_runtime sample_provider [user_message ''hi''] None None 4096 (JInt 1)
        (sample_world Linux (sample_credentials (JStr ''token-A'') JNull JNull) Failed
           [Resp 500 ''overloaded'' None])))
   = Inr (Some ''Error from Anthropic API (500): overloaded'')"
  using chat_turns_failures_into_error_responses
    [OF sample_body_built,
     of "sample_world Linux (sample_credentials (JStr ''token-A'') JNull JNull) Failed
           [Resp 500 ''overloaded'' None]"]
  by (auto simp: sample_world_def sample_provider_def init_provider_def py_str_int_def digits.simps digit_char_def)

text \<open>
  C2 as stated fails for a user message without \<open>content\<close>: the body is built before the
  \<open>try\<close>, and the \<open>KeyError\<close> reaches the caller.
\<close>

theorem message_without_content_counterexample:
  "fst (chat sample_runtime sample_provider [JObj [(''role'', JStr ''user'')]] None None 4096 (JInt 1)
        (sample_world Linux (sample_credentials (JStr ''token-A'') JNull JNull) Failed
           [Resp 500 ''overloaded'' None]))
   = Inl (KeyError ''content'')"
  by (simp add: chat_defs)

text \<open>Two answers with status 401, and \<open>token-B\<close> in the credential file.\<close>

theorem unauthorized_request_is_retried_at_most_once_witness:
  "map_sum id finish_reason
     (fst (chat sample_runtime sample_provider [user_message ''hi''] None None 4096 (JInt 1)
        (sample_world Linux (sample_credentials (JStr ''token-B'') JNull (JInt 1800000000000)) Failed
           [Resp 401 ''unauthorized'' None, Resp 401 ''unauthorized'' None])))
   = Inr ''error''
   \<and> w_log (snd (snd (chat sample_runtime sample_provider [user_message ''hi''] None None 4096 (JInt 1)
        (sample_world Linux (sample_credentials (JStr ''token-B'') JNull (JInt 1800000000000)) Failed
           [Resp 401 ''unauthorized'' None, Resp 401 ''unauthorized'' None]))))
   = [MessagesPost (JStr ''token-A'') sample_body, Resolve, MessagesPost (JStr ''token-B'') sample_body]"
  using unauthorized_request_is_retried_at_most_once
    [of sample_runtime sample_provider "[user_message ''hi'']" None None 4096 "JInt 1"
        "sample_world Linux (sample_credentials (JStr ''token-B'') JNull (JInt 1800000000000)) Failed
           [Resp 401 ''unauthorized'' None, Resp 401 ''unauthorized'' None]"
        "fst (chat sample_runtime sample_provider [user_message ''hi''] None None 4096 (JInt 1)
        (sample_world Linux (sample_credentials (JStr ''token-B'') JNull (JInt 1800000000000)) Failed
           [Resp 401 ''unauthorized'' None, Resp 401 ''unauthorized'' None]))"
        "fst (snd (chat sample_runtime sample_provider [user_message ''hi''] None None 4096 (JInt 1)
        (sample_world Linux (sample_credentials (JStr ''token-B'') JNull (JInt 1800000000000)) Failed
           [Resp 401 ''unauthorized'' None, Resp 401 ''unauthorized'' None])))"
        "snd (snd (chat sample_runtime sample_provider [user_message ''hi''] None None 4096 (JInt 1)
        (sample_world Linux (sample_credentials (JStr ''token-B'') JNull (JInt 1800000000000)) Failed
           [Resp 401 ''unauthorized'' None, Resp 401 ''unauthorized'' None])))"]
  by (simp add: chat_defs auth_defs sample_world_def sample_credentials_def sample_provider_def
      user_message_def sample_body_def digits.simps digit_char_def)

end
